theory Spec2Isabelle
  imports Complex_Main "HOL-Library.Sublist" "HOL-Library.AList"
begin

section \<open>JavaScript values\<close>

text \<open>
  The server of \<^verbatim>\<open>src/api/mcp.ts\<close> works on JSON-decoded values. A JavaScript number is
  modelled by the real it denotes, with the three non-finite values apart; the source only
  compares numbers, takes minima and tests them for truthiness, all of which are exact.
  Strings are lists of characters, objects are association lists in insertion order whose
  keys are distinct, as the keys of a JavaScript object are.
\<close>

datatype jsnum = NaN | NegInf | Fin real | PosInf

datatype jsval =
    JUndefined
  | JNull
  | JBool bool
  | JNum jsnum
  | JStr string
  | JArr "jsval list"
  | JObj "(string \<times> jsval) list"

type_synonym obj = "(string \<times> jsval) list"

text \<open>Property read \<^verbatim>\<open>o.k\<close> on an object: \<^verbatim>\<open>undefined\<close> when the key is absent.\<close>

definition field :: "obj \<Rightarrow> string \<Rightarrow> jsval" where
  "field kvs k = (case map_of kvs k of Some v \<Rightarrow> v | None \<Rightarrow> JUndefined)"

text \<open>
  Property read on a value that is neither \<^verbatim>\<open>null\<close> nor \<^verbatim>\<open>undefined\<close>. None of the keys the
  source reads is a built-in member of a string, number, boolean or array, so the read gives
  \<^verbatim>\<open>undefined\<close> on everything but an object.
\<close>

definition get :: "jsval \<Rightarrow> string \<Rightarrow> jsval" where
  "get v k = (case v of JObj kvs \<Rightarrow> field kvs k | _ \<Rightarrow> JUndefined)"

text \<open>ToBoolean.\<close>

fun num_truthy :: "jsnum \<Rightarrow> bool" where
  "num_truthy NaN = False"
| "num_truthy (Fin x) = (x \<noteq> 0)"
| "num_truthy NegInf = True"
| "num_truthy PosInf = True"

fun truthy :: "jsval \<Rightarrow> bool" where
  "truthy JUndefined = False"
| "truthy JNull = False"
| "truthy (JBool b) = b"
| "truthy (JNum n) = num_truthy n"
| "truthy (JStr s) = (s \<noteq> [])"
| "truthy (JArr vs) = True"
| "truthy (JObj kvs) = True"

text \<open>The operator \<^verbatim>\<open>a || b\<close>.\<close>

definition js_or :: "jsval \<Rightarrow> jsval \<Rightarrow> jsval" where
  "js_or a b = (if truthy a then a else b)"

text \<open>The comparison \<^verbatim>\<open>a < b\<close> on numbers (false as soon as one side is NaN) and \<^verbatim>\<open>Math.min\<close>.\<close>

fun num_less :: "jsnum \<Rightarrow> jsnum \<Rightarrow> bool" where
  "num_less NaN b = False"
| "num_less a NaN = False"
| "num_less PosInf b = False"
| "num_less a NegInf = False"
| "num_less NegInf b = True"
| "num_less a PosInf = True"
| "num_less (Fin x) (Fin y) = (x < y)"

definition Math_min :: "jsnum \<Rightarrow> jsnum \<Rightarrow> jsnum" where
  "Math_min a b = (if a = NaN \<or> b = NaN then NaN else if num_less b a then b else a)"

text \<open>
  \<^verbatim>\<open>s.substring(0, n)\<close>: the end index is truncated to an integer (NaN counts as 0) and
  clamped to the range from 0 to the length of the string.
\<close>

fun substring0 :: "string \<Rightarrow> jsnum \<Rightarrow> string" where
  "substring0 s NaN = []"
| "substring0 s NegInf = []"
| "substring0 s (Fin x) = take (nat \<lfloor>x\<rfloor>) s"
| "substring0 s PosInf = s"

text \<open>
  \<^verbatim>\<open>xs.slice(0, n)\<close> on an array: the end index is truncated towards zero to an integer
  (NaN counts as 0), and a negative integer counts from the end of the array.
\<close>

definition trunc :: "real \<Rightarrow> int" where
  "trunc x = (if x < 0 then \<lceil>x\<rceil> else \<lfloor>x\<rfloor>)"

fun slice0 :: "'a list \<Rightarrow> jsnum \<Rightarrow> 'a list" where
  "slice0 xs NaN = []"
| "slice0 xs NegInf = []"
| "slice0 xs (Fin x) =
     (if trunc x < 0 then take (nat (int (length xs) + trunc x)) xs
      else take (nat (trunc x)) xs)"
| "slice0 xs PosInf = xs"

text \<open>
  \<^verbatim>\<open>s.includes(t)\<close>. The case folding \<^verbatim>\<open>s.toLowerCase()\<close> is the engine's, over every cased
  letter of Unicode; the functions that use it take it as the parameter \<open>lc\<close>.
\<close>

fun str_includes :: "string \<Rightarrow> string \<Rightarrow> bool" where
  "str_includes [] t = (t = [])"
| "str_includes (c # s) t = (prefix t (c # s) \<or> str_includes s t)"

text \<open>
  \<^verbatim>\<open>String(v)\<close> and template interpolation. The decimal text of a number is the engine's
  Number::toString, which is taken as the parameter \<open>ns\<close>. An array is joined with commas,
  \<^verbatim>\<open>null\<close> and \<^verbatim>\<open>undefined\<close> elements giving the empty text.
\<close>

fun join :: "string \<Rightarrow> string list \<Rightarrow> string" where
  "join sep [] = []"
| "join sep [x] = x"
| "join sep (x # y # ys) = x @ sep @ join sep (y # ys)"

fun ToString :: "(jsnum \<Rightarrow> string) \<Rightarrow> jsval \<Rightarrow> string" where
  "ToString ns JUndefined = ''undefined''"
| "ToString ns JNull = ''null''"
| "ToString ns (JBool b) = (if b then ''true'' else ''false'')"
| "ToString ns (JNum n) = ns n"
| "ToString ns (JStr s) = s"
| "ToString ns (JArr vs) =
     join '','' (map (\<lambda>v. if v = JUndefined \<or> v = JNull then [] else ToString ns v) vs)"
| "ToString ns (JObj kvs) = ''[object Object]''"

text \<open>
  \<^verbatim>\<open>Number(v)\<close>. The numeric reading of a string is the engine's StringToNumber, taken as
  the parameter \<open>sn\<close>; an array or object is first turned into its text.
\<close>

fun ToNumber :: "(jsnum \<Rightarrow> string) \<Rightarrow> (string \<Rightarrow> jsnum) \<Rightarrow> jsval \<Rightarrow> jsnum" where
  "ToNumber ns sn JUndefined = NaN"
| "ToNumber ns sn JNull = Fin 0"
| "ToNumber ns sn (JBool b) = (if b then Fin 1 else Fin 0)"
| "ToNumber ns sn (JNum n) = n"
| "ToNumber ns sn (JStr s) = sn s"
| "ToNumber ns sn (JArr vs) = sn (ToString ns (JArr vs))"
| "ToNumber ns sn (JObj kvs) = sn (ToString ns (JObj kvs))"

text \<open>The decimal text of an array index, for \<^verbatim>\<open>Object.entries\<close> of an array.\<close>

fun index_text :: "nat \<Rightarrow> string" where
  "index_text n =
     (if n < 10 then [''0123456789'' ! n]
      else index_text (n div 10) @ [''0123456789'' ! (n mod 10)])"

declare index_text.simps [simp del]

definition entries :: "jsval list \<Rightarrow> obj" where
  "entries vs = zip (map index_text [0 ..< length vs]) vs"


section \<open>Client-side filter\<close>

text \<open>
  \<^verbatim>\<open>filterResults\<close> (lines 13 to 46). Each option is \<open>None\<close> when the caller left it out, and
  then defaults to the empty list.
\<close>

record filter_options =
  excludeCompanies :: "string list option"
  excludeJobTitles :: "string list option"

text \<open>The callback given to \<^verbatim>\<open>results.filter\<close>: true when the item is kept.\<close>

definition keep_item ::
  "(jsnum \<Rightarrow> string) \<Rightarrow> (string \<Rightarrow> string) \<Rightarrow> string list \<Rightarrow> string list \<Rightarrow> obj \<Rightarrow> bool" where
  "keep_item ns lc excludeCompaniesLower excludeJobTitlesLower item =
     (let props = field item ''properties'' in
      if \<not> truthy props then True
      else
        let company = lc (ToString ns (js_or (get props ''company'') (JStr []))) in
        if company \<noteq> [] \<and> list_ex (\<lambda>exc. str_includes company exc) excludeCompaniesLower
        then False
        else
          let jobtitle = lc (ToString ns (js_or (get props ''jobtitle'') (JStr []))) in
          if jobtitle \<noteq> [] \<and> list_ex (\<lambda>exc. str_includes jobtitle exc) excludeJobTitlesLower
          then False
          else True)"

definition filterResults ::
  "(jsnum \<Rightarrow> string) \<Rightarrow> (string \<Rightarrow> string) \<Rightarrow> obj list \<Rightarrow> filter_options
     \<Rightarrow> obj list \<times> nat" where
  "filterResults ns lc results options =
     (let excludeCompanies = (case excludeCompanies options of None \<Rightarrow> [] | Some xs \<Rightarrow> xs);
          excludeJobTitles = (case excludeJobTitles options of None \<Rightarrow> [] | Some xs \<Rightarrow> xs)
      in
      if length excludeCompanies = 0 \<and> length excludeJobTitles = 0 then (results, 0)
      else
        let excludeCompaniesLower = map lc excludeCompanies;
            excludeJobTitlesLower = map lc excludeJobTitles;
            filtered = filter (keep_item ns lc excludeCompaniesLower excludeJobTitlesLower) results
        in (filtered, length results - length filtered))"


section \<open>Result compactor\<close>

definition DEFAULT_MAX_RESULTS :: jsnum where
  "DEFAULT_MAX_RESULTS = Fin 20"

definition DEFAULT_MAX_PROPERTY_LENGTH :: jsnum where
  "DEFAULT_MAX_PROPERTY_LENGTH = Fin 500"

text \<open>\<^verbatim>\<open>truncateProperties\<close> (lines 49 to 59): one pass over the entries of the object.\<close>

definition truncate_value :: "jsnum \<Rightarrow> jsval \<Rightarrow> jsval" where
  "truncate_value maxLength v =
     (case v of
        JStr s \<Rightarrow>
          if num_less maxLength (Fin (real (length s)))
          then JStr (substring0 s maxLength @ ''...[truncated]'')
          else v
      | _ \<Rightarrow> v)"

definition truncateProperties :: "obj \<Rightarrow> jsnum \<Rightarrow> obj" where
  "truncateProperties ob maxLength = map (\<lambda>(key, v). (key, truncate_value maxLength v)) ob"

text \<open>\<^verbatim>\<open>compactResult\<close> (lines 62 to 84) and \<^verbatim>\<open>compactResults\<close> (lines 87 to 96).\<close>

record compact_options =
  maxPropertyLength :: "jsnum option"
  includeMetadata :: "bool option"

definition compactResult :: "obj \<Rightarrow> compact_options \<Rightarrow> obj" where
  "compactResult item options =
     (let maxLen = (case maxPropertyLength options of
                      None \<Rightarrow> DEFAULT_MAX_PROPERTY_LENGTH | Some n \<Rightarrow> n);
          meta = (case includeMetadata options of None \<Rightarrow> False | Some b \<Rightarrow> b);
          result = [(''id'', field item ''id'')];
          result =
            (case field item ''properties'' of
               JObj ps \<Rightarrow> result @ [(''properties'', JObj (truncateProperties ps maxLen))]
             | JArr vs \<Rightarrow>
                 result @ [(''properties'', JObj (truncateProperties (entries vs) maxLen))]
             | _ \<Rightarrow> result)
      in
      if meta then
        result
        @ (if truthy (field item ''createdAt'')
           then [(''createdAt'', field item ''createdAt'')] else [])
        @ (if truthy (field item ''updatedAt'')
           then [(''updatedAt'', field item ''updatedAt'')] else [])
        @ (if field item ''archived'' \<noteq> JUndefined
           then [(''archived'', field item ''archived'')] else [])
        @ (if truthy (field item ''url'') then [(''url'', field item ''url'')] else [])
      else result)"

record page =
  results :: "obj list"
  total :: jsval
  paging :: jsval

definition compactResults :: "page \<Rightarrow> compact_options \<Rightarrow> obj" where
  "compactResults data options =
     [(''total'', total data),
      (''results'', JArr (map (\<lambda>item. JObj (compactResult item options)) (results data))),
      (''paging'', paging data)]"


section \<open>Remote object client\<close>

text \<open>
  A thrown value is an \<^verbatim>\<open>Error\<close> made by the source with its message, a \<^verbatim>\<open>TypeError\<close> raised
  by the engine (a property read on \<^verbatim>\<open>null\<close> or \<^verbatim>\<open>undefined\<close>, a call of something that is not a
  function), or the rejection of \<^verbatim>\<open>fetch\<close> or of \<^verbatim>\<open>res.json()\<close> with the engine's message.
\<close>

datatype error = Error string | TypeError | Rejected string

text \<open>
  A request path is kept structured: \<open>PathQuery p q\<close> stands for the path \<open>p\<close> followed by
  \<^verbatim>\<open>?\<close> and the serialised \<^verbatim>\<open>URLSearchParams\<close> \<open>q\<close>. The body is the object handed to
  \<^verbatim>\<open>JSON.stringify\<close>.
\<close>

datatype path = Path string | PathQuery string "(string \<times> string) list"

record request =
  path :: path
  verb :: string
  bearer :: string
  body :: "jsval option"

text \<open>
  What \<^verbatim>\<open>fetch\<close> gives back: a rejection, a response that is not \<^verbatim>\<open>ok\<close> with its status and
  text, or an \<^verbatim>\<open>ok\<close> response whose body is JSON (\<open>Inr\<close>) or is not (\<open>Inl\<close>, the message of
  the rejection of \<^verbatim>\<open>res.json()\<close>).
\<close>

datatype response = NetworkError string | HttpError nat string | HttpOk "string + jsval"

text \<open>
  The world around the server: the credential of the process environment, the remote system
  (its answer may depend on the requests issued before), the engine's conversions and the
  clock.
\<close>

record host =
  token :: "string option"
  remote :: "request list \<Rightarrow> request \<Rightarrow> response"
  numberToString :: "jsnum \<Rightarrow> string"
  stringToNumber :: "string \<Rightarrow> jsnum"
  toLowerCase :: "string \<Rightarrow> string"
  jsonStringify :: "jsval \<Rightarrow> string"
  typeErrorMessage :: string
  now :: string
  tomorrow :: string

text \<open>
  An asynchronous computation takes the requests issued so far and returns its outcome with
  the requests issued after it ran.
\<close>

type_synonym 'a async = "request list \<Rightarrow> (error + 'a) \<times> request list"

definition ret :: "'a \<Rightarrow> 'a async" where
  "ret x tr = (Inr x, tr)"

definition throw :: "error \<Rightarrow> 'a async" where
  "throw e tr = (Inl e, tr)"

definition lift :: "error + 'a \<Rightarrow> 'a async" where
  "lift r tr = (r, tr)"

definition andThen :: "'a async \<Rightarrow> ('a \<Rightarrow> 'b async) \<Rightarrow> 'b async" where
  "andThen m f tr = (case m tr of (Inl e, tr') \<Rightarrow> (Inl e, tr') | (Inr x, tr') \<Rightarrow> f x tr')"

text \<open>
  \<^verbatim>\<open>hubspot\<close> (lines 99 to 118). \<open>settle\<close> is what becomes of the answer of \<^verbatim>\<open>fetch\<close> (lines
  103 to 117): a response that is not \<^verbatim>\<open>ok\<close> is thrown with its status and text, a
  \<^verbatim>\<open>DELETE\<close> gives \<^verbatim>\<open>{ success: true }\<close> without reading the body, anything else the decoded
  body.
\<close>

definition settle :: "host \<Rightarrow> string \<Rightarrow> response \<Rightarrow> error + jsval" where
  "settle h m res =
     (case res of
        NetworkError msg \<Rightarrow> Inl (Rejected msg)
      | HttpError st txt \<Rightarrow>
          Inl (Error (''HubSpot API '' @ numberToString h (Fin (real st)) @ '': '' @ txt))
      | HttpOk js \<Rightarrow>
          if m = ''DELETE'' then Inr (JObj [(''success'', JBool True)])
          else (case js of Inl msg \<Rightarrow> Inl (Rejected msg) | Inr v \<Rightarrow> Inr v))"

definition hubspot :: "host \<Rightarrow> path \<Rightarrow> string \<Rightarrow> jsval option \<Rightarrow> jsval async" where
  "hubspot h p m b tr =
     (case token h of
        None \<Rightarrow> (Inl (Error ''HUBSPOT_ACCESS_TOKEN not configured''), tr)
      | Some t \<Rightarrow>
          if t = [] then (Inl (Error ''HUBSPOT_ACCESS_TOKEN not configured''), tr)
          else
            let req = \<lparr>path = p, verb = m, bearer = t, body = b\<rparr>
            in (settle h m (remote h tr req), tr @ [req]))"


section \<open>Tool catalog\<close>

text \<open>
  The names of \<^verbatim>\<open>TOOLS\<close> (lines 121 to 666), in order. The descriptions and input schemas
  are static text that no handler reads; they are left out.
\<close>

definition TOOL_NAMES :: "string list" where
  "TOOL_NAMES =
     [''hubspot_list_contacts'', ''hubspot_get_contact'', ''hubspot_create_contact'',
      ''hubspot_update_contact'', ''hubspot_delete_contact'', ''hubspot_search_contacts'',
      ''hubspot_list_companies'', ''hubspot_get_company'', ''hubspot_create_company'',
      ''hubspot_update_company'', ''hubspot_delete_company'', ''hubspot_search_companies'',
      ''hubspot_contact_properties'', ''hubspot_company_properties'', ''hubspot_list_owners'',
      ''hubspot_get_owner'', ''hubspot_get_engagements'', ''hubspot_log_email'',
      ''hubspot_create_note'', ''hubspot_create_task'', ''hubspot_search_tasks'',
      ''hubspot_update_task'', ''hubspot_get_deal'', ''hubspot_create_deal'',
      ''hubspot_update_deal'', ''hubspot_search_deals'', ''hubspot_delete_deal'',
      ''hubspot_deal_properties'', ''hubspot_list_pipelines'']"

definition TOOLS :: jsval where
  "TOOLS = JArr (map (\<lambda>n. JObj [(''name'', JStr n)]) TOOL_NAMES)"


section \<open>Reading untyped data\<close>

text \<open>
  The source casts the decoded JSON of the remote system and of the caller to the shape it
  expects, unchecked. The reads below fail where the engine would: a property read on
  \<^verbatim>\<open>null\<close> or \<^verbatim>\<open>undefined\<close>, and \<^verbatim>\<open>map\<close> or \<^verbatim>\<open>filter\<close> called on something that is not an array.
\<close>

definition read :: "jsval \<Rightarrow> string \<Rightarrow> error + jsval" where
  "read v k = (if v = JUndefined \<or> v = JNull then Inl TypeError else Inr (get v k))"

definition as_object :: "jsval \<Rightarrow> obj option" where
  "as_object v =
     (case v of JObj kvs \<Rightarrow> Some kvs | JUndefined \<Rightarrow> None | JNull \<Rightarrow> None | _ \<Rightarrow> Some [])"

definition objects_in :: "jsval \<Rightarrow> error + obj list" where
  "objects_in v =
     (case v of
        JArr vs \<Rightarrow>
          (case those (map as_object vs) of None \<Rightarrow> Inl TypeError | Some items \<Rightarrow> Inr items)
      | _ \<Rightarrow> Inl TypeError)"

definition results_of :: "jsval \<Rightarrow> error + obj list" where
  "results_of data =
     (case read data ''results'' of Inl e \<Rightarrow> Inl e | Inr v \<Rightarrow> objects_in v)"

definition page_of :: "jsval \<Rightarrow> error + page" where
  "page_of data =
     (case results_of data of
        Inl e \<Rightarrow> Inl e
      | Inr items \<Rightarrow>
          Inr \<lparr>results = items, total = get data ''total'', paging = get data ''paging''\<rparr>)"

definition strings_of :: "jsval list \<Rightarrow> string list option" where
  "strings_of vs = those (map (\<lambda>v. case v of JStr s \<Rightarrow> Some s | _ \<Rightarrow> None) vs)"

definition array_arg :: "jsval \<Rightarrow> string \<Rightarrow> jsval list" where
  "array_arg args k = (case get args k of JArr xs \<Rightarrow> xs | _ \<Rightarrow> [])"

text \<open>The operator \<^verbatim>\<open>||\<close> on two numbers.\<close>

definition num_or :: "jsnum \<Rightarrow> jsnum \<Rightarrow> jsnum" where
  "num_or a b = (if num_truthy a then a else b)"


fun collect :: "(error + 'a) list \<Rightarrow> error + 'a list" where
  "collect [] = Inr []"
| "collect (Inl e # rs) = Inl e"
| "collect (Inr x # rs) = (case collect rs of Inl e \<Rightarrow> Inl e | Inr xs \<Rightarrow> Inr (x # xs))"


section \<open>Tool handlers\<close>

text \<open>\<^verbatim>\<open>String(v)\<close> and \<^verbatim>\<open>Number(v)\<close> with the conversions of the host.\<close>

definition String_of :: "host \<Rightarrow> jsval \<Rightarrow> string" where
  "String_of h v = ToString (numberToString h) v"

definition Number_of :: "host \<Rightarrow> jsval \<Rightarrow> jsnum" where
  "Number_of h v = ToNumber (numberToString h) (stringToNumber h) v"

text \<open>
  The limit expression \<^verbatim>\<open>Math.min(Number(args.limit) || dflt, hi)\<close> of lines 675, 714, 739,
  767, 791, 804, 943 and 1071.
\<close>

definition limit_arg :: "host \<Rightarrow> jsval \<Rightarrow> jsnum \<Rightarrow> jsnum \<Rightarrow> jsnum" where
  "limit_arg h args dflt hi = Math_min (num_or (Number_of h (get args ''limit'')) dflt) hi"

text \<open>The \<^verbatim>\<open>maxLen\<close> expression of lines 687, 726, 745 and 773.\<close>

definition maxLen_arg :: "host \<Rightarrow> jsval \<Rightarrow> jsnum" where
  "maxLen_arg h args =
     (if get args ''maxPropertyLength'' = JNum (Fin 0) then PosInf
      else num_or (Number_of h (get args ''maxPropertyLength'')) DEFAULT_MAX_PROPERTY_LENGTH)"

definition compact_options_of :: "host \<Rightarrow> jsval \<Rightarrow> compact_options" where
  "compact_options_of h args =
     \<lparr>maxPropertyLength = Some (maxLen_arg h args),
      includeMetadata = Some (truthy (get args ''includeMetadata''))\<rparr>"

definition properties_params :: "host \<Rightarrow> jsval \<Rightarrow> (string \<times> string) list" where
  "properties_params h args =
     (case get args ''properties'' of
        JArr ps \<Rightarrow> map (\<lambda>p. (''properties'', String_of h p)) ps
      | _ \<Rightarrow> [])"

definition list_params :: "host \<Rightarrow> jsval \<Rightarrow> jsnum \<Rightarrow> jsnum \<Rightarrow> (string \<times> string) list" where
  "list_params h args dflt hi =
     [(''limit'', String_of h (JNum (limit_arg h args dflt hi)))]
     @ (if truthy (get args ''after'') then [(''after'', String_of h (get args ''after''))]
        else [])"

text \<open>
  The call of \<^verbatim>\<open>filterResults\<close> with the two arrays cast to \<^verbatim>\<open>string[]\<close>: an element that is
  not a string makes \<^verbatim>\<open>toLowerCase\<close> fail, unless both arrays are empty.
\<close>

definition filter_call ::
  "host \<Rightarrow> obj list \<Rightarrow> jsval list \<Rightarrow> jsval list \<Rightarrow> error + obj list \<times> nat" where
  "filter_call h items ec ej =
     (if ec = [] \<and> ej = []
      then Inr (filterResults (numberToString h) (toLowerCase h) items
                  \<lparr>excludeCompanies = Some [], excludeJobTitles = Some []\<rparr>)
      else
        (case (strings_of ec, strings_of ej) of
           (Some a, Some b) \<Rightarrow>
             Inr (filterResults (numberToString h) (toLowerCase h) items
                    \<lparr>excludeCompanies = Some a, excludeJobTitles = Some b\<rparr>)
         | _ \<Rightarrow> Inl TypeError))"

text \<open>Lines 682 to 693 and 721 to 733: filter, then compact, then the exclusion note.\<close>

definition exclude_and_compact :: "host \<Rightarrow> jsval \<Rightarrow> jsval \<Rightarrow> error + jsval" where
  "exclude_and_compact h args data =
     (let excludeCompanies = array_arg args ''excludeCompanies'';
          excludeJobTitles = array_arg args ''excludeJobTitles''
      in
      case page_of data of
        Inl e \<Rightarrow> Inl e
      | Inr pg \<Rightarrow>
          (case filter_call h (results pg) excludeCompanies excludeJobTitles of
             Inl e \<Rightarrow> Inl e
           | Inr (filteredResults, excluded) \<Rightarrow>
               let compacted =
                     compactResults (pg\<lparr>results := filteredResults\<rparr>) (compact_options_of h args)
               in Inr (JObj (compacted @
                     [(''_meta'',
                       if excluded > 0
                       then JObj [(''excluded'', JNum (Fin (real excluded))),
                                  (''excludeCompanies'', JArr excludeCompanies),
                                  (''excludeJobTitles'', JArr excludeJobTitles)]
                       else JUndefined)]))))"

definition compact_page :: "host \<Rightarrow> jsval \<Rightarrow> jsval \<Rightarrow> error + jsval" where
  "compact_page h args data =
     (case page_of data of
        Inl e \<Rightarrow> Inl e
      | Inr pg \<Rightarrow> Inr (JObj (compactResults pg (compact_options_of h args))))"

text \<open>The search body of lines 714 to 718 and 767 to 771.\<close>

definition search_body :: "host \<Rightarrow> jsval \<Rightarrow> obj" where
  "search_body h args =
     [(''limit'', JNum (limit_arg h args DEFAULT_MAX_RESULTS (Fin 100)))]
     @ (if truthy (get args ''query'') then [(''query'', get args ''query'')] else [])
     @ (if truthy (get args ''filterGroups'')
        then [(''filterGroups'', get args ''filterGroups'')] else [])
     @ (case get args ''properties'' of JArr ps \<Rightarrow> [(''properties'', JArr ps)] | _ \<Rightarrow> [])
     @ (case get args ''sorts'' of JArr ss \<Rightarrow> [(''sorts'', JArr ss)] | _ \<Rightarrow> [])"

text \<open>One \<^verbatim>\<open>filters.push\<close> guarded by the truthiness of the argument.\<close>

definition convenience_filter ::
  "host \<Rightarrow> jsval \<Rightarrow> string \<Rightarrow> string \<Rightarrow> string \<Rightarrow> jsval list" where
  "convenience_filter h args key propertyName operator =
     (if truthy (get args key)
      then [JObj [(''propertyName'', JStr propertyName), (''operator'', JStr operator),
                  (''value'', JStr (String_of h (get args key)))]]
      else [])"

definition task_filters :: "host \<Rightarrow> jsval \<Rightarrow> jsval list" where
  "task_filters h args =
     convenience_filter h args ''ownerId'' ''hubspot_owner_id'' ''EQ''
     @ convenience_filter h args ''status'' ''hs_task_status'' ''EQ''
     @ convenience_filter h args ''dueBefore'' ''hs_timestamp'' ''LT''
     @ convenience_filter h args ''dueAfter'' ''hs_timestamp'' ''GT''"

definition TASK_PROPERTIES :: "string list" where
  "TASK_PROPERTIES =
     [''hs_task_subject'', ''hs_task_body'', ''hs_task_status'', ''hs_timestamp'',
      ''hubspot_owner_id'', ''hs_task_priority'']"

definition ascending :: "string \<Rightarrow> jsval" where
  "ascending propertyName =
     JArr [JObj [(''propertyName'', JStr propertyName), (''direction'', JStr ''ASCENDING'')]]"

definition search_tasks_body :: "host \<Rightarrow> jsval \<Rightarrow> obj" where
  "search_tasks_body h args =
     [(''limit'', JNum (limit_arg h args DEFAULT_MAX_RESULTS (Fin 100))),
      (''properties'', JArr (map JStr TASK_PROPERTIES)),
      (''sorts'', ascending ''hs_timestamp'')]
     @ (if length (task_filters h args) > 0
        then [(''filterGroups'', JArr [JObj [(''filters'', JArr (task_filters h args))]])]
        else [])"

definition deal_filters :: "host \<Rightarrow> jsval \<Rightarrow> jsval list" where
  "deal_filters h args =
     convenience_filter h args ''ownerId'' ''hubspot_owner_id'' ''EQ''
     @ convenience_filter h args ''dealstage'' ''dealstage'' ''EQ''
     @ convenience_filter h args ''pipeline'' ''pipeline'' ''EQ''
     @ convenience_filter h args ''closeAfter'' ''closedate'' ''GTE''
     @ convenience_filter h args ''closeBefore'' ''closedate'' ''LTE''
     @ convenience_filter h args ''minAmount'' ''amount'' ''GTE''"

definition DEAL_PROPERTIES :: "string list" where
  "DEAL_PROPERTIES =
     [''dealname'', ''amount'', ''closedate'', ''dealstage'', ''pipeline'', ''hubspot_owner_id'']"

definition search_deals_body :: "host \<Rightarrow> jsval \<Rightarrow> obj" where
  "search_deals_body h args =
     [(''limit'', JNum (limit_arg h args DEFAULT_MAX_RESULTS (Fin 100))),
      (''properties'',
       (case get args ''properties'' of JArr ps \<Rightarrow> JArr ps | _ \<Rightarrow> JArr (map JStr DEAL_PROPERTIES))),
      (''sorts'', ascending ''closedate'')]
     @ (if truthy (get args ''query'') then [(''query'', get args ''query'')] else [])
     @ (if length (deal_filters h args) > 0
        then [(''filterGroups'', JArr [JObj [(''filters'', JArr (deal_filters h args))]])]
        else [])"

text \<open>The page returned by the task and deal searches (lines 952 to 956, 1081 to 1085).\<close>

definition plain_page :: "jsval \<Rightarrow> error + jsval" where
  "plain_page data =
     (case page_of data of
        Inl e \<Rightarrow> Inl e
      | Inr pg \<Rightarrow>
          Inr (JObj [(''total'', total pg),
                     (''results'',
                      JArr (map (\<lambda>t. JObj [(''id'', field t ''id''),
                                            (''properties'', field t ''properties'')])
                              (results pg))),
                     (''paging'', paging pg)]))"

text \<open>The property listings (lines 778 to 786, 1092 to 1095) and the pipelines.\<close>

definition property_list :: "jsval \<Rightarrow> error + jsval" where
  "property_list data =
     (case results_of data of
        Inl e \<Rightarrow> Inl e
      | Inr ps \<Rightarrow>
          Inr (JArr (map (\<lambda>p. JObj [(''name'', field p ''name''), (''label'', field p ''label''),
                                     (''type'', field p ''type''),
                                     (''description'', field p ''description'')]) ps)))"

definition pipeline_view :: "obj \<Rightarrow> error + jsval" where
  "pipeline_view p =
     (case objects_in (field p ''stages'') of
        Inl e \<Rightarrow> Inl e
      | Inr stages \<Rightarrow>
          Inr (JObj [(''id'', field p ''id''), (''label'', field p ''label''),
                     (''stages'',
                      JArr (map (\<lambda>s. JObj [(''id'', field s ''id''), (''label'', field s ''label''),
                                            (''displayOrder'', field s ''displayOrder'')])
                              stages))]))"

definition pipeline_list :: "jsval \<Rightarrow> error + jsval" where
  "pipeline_list data =
     (case results_of data of
        Inl e \<Rightarrow> Inl e
      | Inr ps \<Rightarrow> (case collect (map pipeline_view ps) of Inl e \<Rightarrow> Inl e | Inr vs \<Rightarrow> Inr (JArr vs)))"


subsection \<open>Contacts and companies\<close>

definition hubspot_list_contacts :: "host \<Rightarrow> jsval \<Rightarrow> jsval async" where
  "hubspot_list_contacts h args =
     andThen
       (hubspot h
          (PathQuery ''/crm/v3/objects/contacts''
             (list_params h args DEFAULT_MAX_RESULTS (Fin 100) @ properties_params h args))
          ''GET'' None)
       (\<lambda>data. lift (exclude_and_compact h args data))"

definition hubspot_get_contact :: "host \<Rightarrow> jsval \<Rightarrow> jsval async" where
  "hubspot_get_contact h args =
     hubspot h
       (PathQuery (''/crm/v3/objects/contacts/'' @ String_of h (get args ''id''))
          (properties_params h args))
       ''GET'' None"

definition hubspot_create_contact :: "host \<Rightarrow> jsval \<Rightarrow> jsval async" where
  "hubspot_create_contact h args =
     hubspot h (Path ''/crm/v3/objects/contacts'') ''POST''
       (Some (JObj [(''properties'', get args ''properties'')]))"

definition hubspot_update_contact :: "host \<Rightarrow> jsval \<Rightarrow> jsval async" where
  "hubspot_update_contact h args =
     hubspot h (Path (''/crm/v3/objects/contacts/'' @ String_of h (get args ''id''))) ''PATCH''
       (Some (JObj [(''properties'', get args ''properties'')]))"

definition hubspot_delete_contact :: "host \<Rightarrow> jsval \<Rightarrow> jsval async" where
  "hubspot_delete_contact h args =
     hubspot h (Path (''/crm/v3/objects/contacts/'' @ String_of h (get args ''id''))) ''DELETE''
       None"

definition hubspot_search_contacts :: "host \<Rightarrow> jsval \<Rightarrow> jsval async" where
  "hubspot_search_contacts h args =
     andThen
       (hubspot h (Path ''/crm/v3/objects/contacts/search'') ''POST''
          (Some (JObj (search_body h args))))
       (\<lambda>data. lift (exclude_and_compact h args data))"

definition hubspot_list_companies :: "host \<Rightarrow> jsval \<Rightarrow> jsval async" where
  "hubspot_list_companies h args =
     andThen
       (hubspot h
          (PathQuery ''/crm/v3/objects/companies''
             (list_params h args DEFAULT_MAX_RESULTS (Fin 100) @ properties_params h args))
          ''GET'' None)
       (\<lambda>data. lift (compact_page h args data))"

definition hubspot_get_company :: "host \<Rightarrow> jsval \<Rightarrow> jsval async" where
  "hubspot_get_company h args =
     hubspot h
       (PathQuery (''/crm/v3/objects/companies/'' @ String_of h (get args ''id''))
          (properties_params h args))
       ''GET'' None"

definition hubspot_create_company :: "host \<Rightarrow> jsval \<Rightarrow> jsval async" where
  "hubspot_create_company h args =
     hubspot h (Path ''/crm/v3/objects/companies'') ''POST''
       (Some (JObj [(''properties'', get args ''properties'')]))"

definition hubspot_update_company :: "host \<Rightarrow> jsval \<Rightarrow> jsval async" where
  "hubspot_update_company h args =
     hubspot h (Path (''/crm/v3/objects/companies/'' @ String_of h (get args ''id''))) ''PATCH''
       (Some (JObj [(''properties'', get args ''properties'')]))"

definition hubspot_delete_company :: "host \<Rightarrow> jsval \<Rightarrow> jsval async" where
  "hubspot_delete_company h args =
     hubspot h (Path (''/crm/v3/objects/companies/'' @ String_of h (get args ''id''))) ''DELETE''
       None"

definition hubspot_search_companies :: "host \<Rightarrow> jsval \<Rightarrow> jsval async" where
  "hubspot_search_companies h args =
     andThen
       (hubspot h (Path ''/crm/v3/objects/companies/search'') ''POST''
          (Some (JObj (search_body h args))))
       (\<lambda>data. lift (compact_page h args data))"

subsection \<open>Properties and owners\<close>

definition hubspot_contact_properties :: "host \<Rightarrow> jsval \<Rightarrow> jsval async" where
  "hubspot_contact_properties h args =
     andThen (hubspot h (Path ''/crm/v3/properties/contacts'') ''GET'' None)
       (\<lambda>data. lift (property_list data))"

definition hubspot_company_properties :: "host \<Rightarrow> jsval \<Rightarrow> jsval async" where
  "hubspot_company_properties h args =
     andThen (hubspot h (Path ''/crm/v3/properties/companies'') ''GET'' None)
       (\<lambda>data. lift (property_list data))"

definition hubspot_list_owners :: "host \<Rightarrow> jsval \<Rightarrow> jsval async" where
  "hubspot_list_owners h args =
     hubspot h
       (PathQuery ''/crm/v3/owners''
          (list_params h args (Fin 100) (Fin 500)
           @ (if truthy (get args ''archived'') then [(''archived'', ''true'')] else [])))
       ''GET'' None"

definition hubspot_get_owner :: "host \<Rightarrow> jsval \<Rightarrow> jsval async" where
  "hubspot_get_owner h args =
     hubspot h (Path (''/crm/v3/owners/'' @ String_of h (get args ''ownerId''))) ''GET'' None"

subsection \<open>Engagements\<close>

definition allTypes :: "string list" where
  "allTypes = [''notes'', ''emails'', ''calls'', ''meetings'', ''tasks'']"

definition engagement_properties :: "string \<Rightarrow> string list" where
  "engagement_properties type =
     (if type = ''notes'' then [''hs_note_body'', ''hs_timestamp'', ''hs_createdate'']
      else if type = ''emails''
      then [''hs_email_subject'', ''hs_email_text'', ''hs_email_direction'', ''hs_timestamp'',
            ''hs_createdate'']
      else if type = ''calls''
      then [''hs_call_title'', ''hs_call_body'', ''hs_call_duration'', ''hs_call_direction'',
            ''hs_timestamp'', ''hs_createdate'']
      else if type = ''meetings''
      then [''hs_meeting_title'', ''hs_meeting_body'', ''hs_meeting_start_time'',
            ''hs_meeting_end_time'', ''hs_createdate'']
      else [''hs_task_subject'', ''hs_task_body'', ''hs_task_status'', ''hs_timestamp'',
            ''hs_createdate''])"

definition lookup_path :: "string \<Rightarrow> string \<Rightarrow> path" where
  "lookup_path contactId type =
     Path (''/crm/v4/objects/contacts/'' @ contactId @ ''/associations/'' @ type)"

text \<open>
  The batch read of lines 819 to 834, for a non-empty array of associations: the identifiers
  of the first \<open>limit\<close> associations are read, then the objects.
\<close>

definition batch_read :: "host \<Rightarrow> jsnum \<Rightarrow> string \<Rightarrow> jsval list \<Rightarrow> jsval list async" where
  "batch_read h limit type assocs =
     andThen (lift (collect (map (\<lambda>a. read a ''toObjectId'') (slice0 assocs limit))))
       (\<lambda>objectIds.
          andThen
            (hubspot h (Path (''/crm/v3/objects/'' @ type @ ''/batch/read'')) ''POST''
               (Some (JObj [(''inputs'', JArr (map (\<lambda>i. JObj [(''id'', i)]) objectIds)),
                            (''properties'', JArr (map JStr (engagement_properties type)))])))
            (\<lambda>batchResponse.
               andThen (lift (results_of batchResponse))
                 (\<lambda>es. ret (map (\<lambda>e. JObj [(''id'', field e ''id''),
                                            (''properties'', field e ''properties'')]) es))))"

text \<open>
  The body of the \<^verbatim>\<open>try\<close> block after the association lookup has resolved (lines 817 to
  837). When \<^verbatim>\<open>associations.results\<close> is not an array, the test
  \<^verbatim>\<open>results && results.length > 0\<close> still passes for a non-empty string and for an object
  with a positive \<^verbatim>\<open>length\<close>, and the batch read then fails before any request.
\<close>

definition after_lookup :: "host \<Rightarrow> jsnum \<Rightarrow> string \<Rightarrow> jsval \<Rightarrow> jsval list async" where
  "after_lookup h limit type associations =
     andThen (lift (read associations ''results''))
       (\<lambda>rs. case rs of
               JArr assocs \<Rightarrow> if length assocs > 0 then batch_read h limit type assocs else ret []
             | JStr s \<Rightarrow> if s \<noteq> [] then throw TypeError else ret []
             | JObj kvs \<Rightarrow>
                 if num_less (Fin 0) (Number_of h (field kvs ''length''))
                 then throw TypeError else ret []
             | _ \<Rightarrow> ret [])"

text \<open>
  \<^verbatim>\<open>Promise.all\<close> over the per-type callbacks (lines 812 to 842). Each callback runs up to
  its first \<^verbatim>\<open>await\<close> when it is created, so the association lookups are issued first, in
  the order of the types. The callbacks then resume as the lookups resolve; the model
  resumes them in the order of the types. The \<^verbatim>\<open>catch\<close> of a callback turns any failure
  into the empty list for its type.
\<close>

fun start_lookups ::
  "host \<Rightarrow> string \<Rightarrow> string list \<Rightarrow> request list
     \<Rightarrow> (string \<times> (error + jsval)) list \<times> request list" where
  "start_lookups h contactId [] tr = ([], tr)"
| "start_lookups h contactId (type # types) tr =
     (case hubspot h (lookup_path contactId type) ''GET'' None tr of
        (r, tr') \<Rightarrow>
          (case start_lookups h contactId types tr' of
             (rs, tr'') \<Rightarrow> ((type, r) # rs, tr'')))"

definition resume_task ::
  "host \<Rightarrow> jsnum \<Rightarrow> string \<Rightarrow> error + jsval \<Rightarrow> request list \<Rightarrow> jsval list \<times> request list" where
  "resume_task h limit type r tr =
     (case r of
        Inl e \<Rightarrow> ([], tr)
      | Inr associations \<Rightarrow>
          (case after_lookup h limit type associations tr of
             (Inl e, tr') \<Rightarrow> ([], tr')
           | (Inr es, tr') \<Rightarrow> (es, tr')))"

fun resume_all ::
  "host \<Rightarrow> jsnum \<Rightarrow> (string \<times> (error + jsval)) list \<Rightarrow> obj \<Rightarrow> request list
     \<Rightarrow> obj \<times> request list" where
  "resume_all h limit [] engagements tr = (engagements, tr)"
| "resume_all h limit ((type, r) # rest) engagements tr =
     (case resume_task h limit type r tr of
        (es, tr') \<Rightarrow> resume_all h limit rest (AList.update type (JArr es) engagements) tr')"

definition typesToFetch :: "jsval \<Rightarrow> string list" where
  "typesToFetch args =
     (case get args ''types'' of
        JArr requestedTypes \<Rightarrow>
          List.map_filter
            (\<lambda>t. case t of JStr s \<Rightarrow> if s \<in> set allTypes then Some s else None | _ \<Rightarrow> None)
            requestedTypes
      | _ \<Rightarrow> allTypes)"

definition hubspot_get_engagements :: "host \<Rightarrow> jsval \<Rightarrow> jsval async" where
  "hubspot_get_engagements h args tr =
     (let contactId = String_of h (get args ''contactId'');
          limit = limit_arg h args DEFAULT_MAX_RESULTS (Fin 100)
      in
      case start_lookups h contactId (typesToFetch args) tr of
        (rs, tr') \<Rightarrow>
          (case resume_all h limit rs [] tr' of
             (engagements, tr'') \<Rightarrow>
               (Inr (JObj [(''contactId'', JStr contactId),
                           (''engagements'', JObj engagements),
                           (''_meta'',
                            JObj [(''typesRequested'', JArr (map JStr (typesToFetch args)))])]),
                tr'')))"


subsection \<open>Composite creates\<close>

text \<open>A property set only when the argument is truthy, as in \<^verbatim>\<open>if (args.k) properties.n = String(args.k)\<close>.\<close>

definition optional_property :: "host \<Rightarrow> jsval \<Rightarrow> string \<Rightarrow> string \<Rightarrow> obj" where
  "optional_property h args key name =
     (if truthy (get args key) then [(name, JStr (String_of h (get args key)))] else [])"

definition association_path ::
  "host \<Rightarrow> string \<Rightarrow> jsval \<Rightarrow> string \<Rightarrow> string \<Rightarrow> string \<Rightarrow> path" where
  "association_path h objectType objectId targetType targetId label =
     Path (''/crm/v3/objects/'' @ objectType @ ''/'' @ String_of h objectId @ ''/associations/''
           @ targetType @ ''/'' @ targetId @ ''/'' @ label)"

definition hubspot_log_email :: "host \<Rightarrow> jsval \<Rightarrow> jsval async" where
  "hubspot_log_email h args =
     (let contactId = String_of h (get args ''contactId'');
          timestamp = (if truthy (get args ''timestamp'')
                       then String_of h (get args ''timestamp'') else now h)
      in
      andThen
        (hubspot h (Path ''/crm/v3/objects/emails'') ''POST''
           (Some (JObj [(''properties'',
              JObj [(''hs_email_subject'', JStr (String_of h (get args ''subject''))),
                    (''hs_email_text'', JStr (String_of h (get args ''body''))),
                    (''hs_email_direction'',
                     JStr (String_of h (js_or (get args ''direction'') (JStr ''EMAIL'')))),
                    (''hs_timestamp'', JStr timestamp)])])))
        (\<lambda>emailData.
           andThen (lift (read emailData ''id''))
             (\<lambda>emailId.
                andThen
                  (hubspot h
                     (association_path h ''emails'' emailId ''contacts'' contactId
                        ''email_to_contact'')
                     ''PUT'' None)
                  (\<lambda>_. ret (JObj [(''success'', JBool True), (''emailId'', emailId),
                                   (''contactId'', JStr contactId),
                                   (''properties'', get emailData ''properties'')])))))"

definition hubspot_create_note :: "host \<Rightarrow> jsval \<Rightarrow> jsval async" where
  "hubspot_create_note h args =
     (let contactId = String_of h (get args ''contactId'');
          timestamp = (if truthy (get args ''timestamp'')
                       then String_of h (get args ''timestamp'') else now h)
      in
      andThen
        (hubspot h (Path ''/crm/v3/objects/notes'') ''POST''
           (Some (JObj [(''properties'',
              JObj [(''hs_note_body'', JStr (String_of h (get args ''body''))),
                    (''hs_timestamp'', JStr timestamp)])])))
        (\<lambda>noteData.
           andThen (lift (read noteData ''id''))
             (\<lambda>noteId.
                andThen
                  (hubspot h
                     (association_path h ''notes'' noteId ''contacts'' contactId
                        ''note_to_contact'')
                     ''PUT'' None)
                  (\<lambda>_. ret (JObj [(''success'', JBool True), (''noteId'', noteId),
                                   (''contactId'', JStr contactId),
                                   (''properties'', get noteData ''properties'')])))))"

subsection \<open>Tasks\<close>

definition hubspot_create_task :: "host \<Rightarrow> jsval \<Rightarrow> jsval async" where
  "hubspot_create_task h args =
     (let contactId = String_of h (get args ''contactId'');
          dueDate = (if truthy (get args ''dueDate'')
                     then String_of h (get args ''dueDate'') else tomorrow h);
          properties =
            [(''hs_task_subject'', JStr (String_of h (get args ''subject''))),
             (''hs_timestamp'', JStr dueDate),
             (''hs_task_status'', JStr ''NOT_STARTED'')]
            @ optional_property h args ''body'' ''hs_task_body''
            @ optional_property h args ''ownerId'' ''hubspot_owner_id''
            @ optional_property h args ''priority'' ''hs_task_priority''
      in
      andThen
        (hubspot h (Path ''/crm/v3/objects/tasks'') ''POST''
           (Some (JObj [(''properties'', JObj properties)])))
        (\<lambda>taskData.
           andThen (lift (read taskData ''id''))
             (\<lambda>taskId.
                andThen
                  (hubspot h
                     (association_path h ''tasks'' taskId ''contacts'' contactId
                        ''task_to_contact'')
                     ''PUT'' None)
                  (\<lambda>_. ret (JObj [(''success'', JBool True), (''taskId'', taskId),
                                   (''contactId'', JStr contactId),
                                   (''properties'', get taskData ''properties'')])))))"

definition hubspot_search_tasks :: "host \<Rightarrow> jsval \<Rightarrow> jsval async" where
  "hubspot_search_tasks h args =
     andThen
       (hubspot h (Path ''/crm/v3/objects/tasks/search'') ''POST''
          (Some (JObj (search_tasks_body h args))))
       (\<lambda>data. lift (plain_page data))"

definition update_task_properties :: "host \<Rightarrow> jsval \<Rightarrow> obj" where
  "update_task_properties h args =
     optional_property h args ''status'' ''hs_task_status''
     @ optional_property h args ''subject'' ''hs_task_subject''
     @ optional_property h args ''body'' ''hs_task_body''
     @ optional_property h args ''dueDate'' ''hs_timestamp''
     @ optional_property h args ''ownerId'' ''hubspot_owner_id''
     @ optional_property h args ''priority'' ''hs_task_priority''"

definition hubspot_update_task :: "host \<Rightarrow> jsval \<Rightarrow> jsval async" where
  "hubspot_update_task h args =
     (let taskId = String_of h (get args ''taskId'');
          properties = update_task_properties h args
      in
      if length properties = 0
      then throw (Error ''At least one property to update must be provided'')
      else
        andThen
          (hubspot h (Path (''/crm/v3/objects/tasks/'' @ taskId)) ''PATCH''
             (Some (JObj [(''properties'', JObj properties)])))
          (\<lambda>taskData.
             andThen (lift (read taskData ''id''))
               (\<lambda>i. ret (JObj [(''success'', JBool True), (''taskId'', i),
                                (''properties'', get taskData ''properties'')]))))"

subsection \<open>Deals\<close>

definition hubspot_get_deal :: "host \<Rightarrow> jsval \<Rightarrow> jsval async" where
  "hubspot_get_deal h args =
     hubspot h
       (PathQuery (''/crm/v3/objects/deals/'' @ String_of h (get args ''id''))
          (properties_params h args))
       ''GET'' None"

text \<open>
  \<^verbatim>\<open>hubspot_create_deal\<close> (lines 992 to 1023). The template of an association path reads
  \<^verbatim>\<open>dealData.id\<close>, and so does the returned object.
\<close>

definition associate_deal ::
  "host \<Rightarrow> jsval \<Rightarrow> jsval \<Rightarrow> string \<Rightarrow> string \<Rightarrow> string \<Rightarrow> jsval async" where
  "associate_deal h args dealData key targetType label =
     (if truthy (get args key)
      then
        andThen (lift (read dealData ''id''))
          (\<lambda>dealId.
             hubspot h
               (association_path h ''deals'' dealId targetType (String_of h (get args key)) label)
               ''PUT'' None)
      else ret JUndefined)"

definition hubspot_create_deal :: "host \<Rightarrow> jsval \<Rightarrow> jsval async" where
  "hubspot_create_deal h args =
     (let properties =
            [(''dealname'', JStr (String_of h (get args ''dealname'')))]
            @ optional_property h args ''amount'' ''amount''
            @ optional_property h args ''closedate'' ''closedate''
            @ optional_property h args ''pipeline'' ''pipeline''
            @ optional_property h args ''dealstage'' ''dealstage''
            @ optional_property h args ''ownerId'' ''hubspot_owner_id''
      in
      andThen
        (hubspot h (Path ''/crm/v3/objects/deals'') ''POST''
           (Some (JObj [(''properties'', JObj properties)])))
        (\<lambda>dealData.
           andThen (associate_deal h args dealData ''contactId'' ''contacts'' ''deal_to_contact'')
             (\<lambda>_.
                andThen
                  (associate_deal h args dealData ''companyId'' ''companies'' ''deal_to_company'')
                  (\<lambda>_.
                     andThen (lift (read dealData ''id''))
                       (\<lambda>dealId.
                          ret (JObj [(''success'', JBool True), (''dealId'', dealId),
                                     (''properties'', get dealData ''properties''),
                                     (''associations'',
                                      JObj [(''contactId'', js_or (get args ''contactId'') JNull),
                                            (''companyId'',
                                             js_or (get args ''companyId'') JNull)])]))))))"

definition update_deal_properties :: "host \<Rightarrow> jsval \<Rightarrow> obj" where
  "update_deal_properties h args =
     optional_property h args ''dealname'' ''dealname''
     @ optional_property h args ''amount'' ''amount''
     @ optional_property h args ''closedate'' ''closedate''
     @ optional_property h args ''dealstage'' ''dealstage''
     @ optional_property h args ''ownerId'' ''hubspot_owner_id''"

definition hubspot_update_deal :: "host \<Rightarrow> jsval \<Rightarrow> jsval async" where
  "hubspot_update_deal h args =
     (let dealId = String_of h (get args ''id'');
          properties = update_deal_properties h args
      in
      if length properties = 0
      then throw (Error ''At least one property to update must be provided'')
      else
        andThen
          (hubspot h (Path (''/crm/v3/objects/deals/'' @ dealId)) ''PATCH''
             (Some (JObj [(''properties'', JObj properties)])))
          (\<lambda>dealData.
             andThen (lift (read dealData ''id''))
               (\<lambda>i. ret (JObj [(''success'', JBool True), (''dealId'', i),
                                (''properties'', get dealData ''properties'')]))))"

definition hubspot_search_deals :: "host \<Rightarrow> jsval \<Rightarrow> jsval async" where
  "hubspot_search_deals h args =
     andThen
       (hubspot h (Path ''/crm/v3/objects/deals/search'') ''POST''
          (Some (JObj (search_deals_body h args))))
       (\<lambda>data. lift (plain_page data))"

definition hubspot_delete_deal :: "host \<Rightarrow> jsval \<Rightarrow> jsval async" where
  "hubspot_delete_deal h args =
     andThen
       (hubspot h (Path (''/crm/v3/objects/deals/'' @ String_of h (get args ''id''))) ''DELETE''
          None)
       (\<lambda>_. ret (JObj [(''success'', JBool True), (''deleted'', get args ''id'')]))"

definition hubspot_deal_properties :: "host \<Rightarrow> jsval \<Rightarrow> jsval async" where
  "hubspot_deal_properties h args =
     andThen (hubspot h (Path ''/crm/v3/properties/deals'') ''GET'' None)
       (\<lambda>data. lift (property_list data))"

definition hubspot_list_pipelines :: "host \<Rightarrow> jsval \<Rightarrow> jsval async" where
  "hubspot_list_pipelines h args =
     andThen (hubspot h (Path ''/crm/v3/pipelines/deals'') ''GET'' None)
       (\<lambda>data. lift (pipeline_list data))"


section \<open>Tool dispatcher\<close>

text \<open>
  The \<^verbatim>\<open>switch\<close> of \<^verbatim>\<open>handleTool\<close> (lines 671 to 1108), in the order of its cases. The
  comparison is strict, so a name that is not a string reaches the default case.
\<close>

definition tool_result :: "host \<Rightarrow> jsval \<Rightarrow> jsval \<Rightarrow> jsval async" where
  "tool_result h name args =
     (if name = JStr ''hubspot_list_contacts'' then hubspot_list_contacts h args
      else if name = JStr ''hubspot_get_contact'' then hubspot_get_contact h args
      else if name = JStr ''hubspot_create_contact'' then hubspot_create_contact h args
      else if name = JStr ''hubspot_update_contact'' then hubspot_update_contact h args
      else if name = JStr ''hubspot_delete_contact'' then hubspot_delete_contact h args
      else if name = JStr ''hubspot_search_contacts'' then hubspot_search_contacts h args
      else if name = JStr ''hubspot_list_companies'' then hubspot_list_companies h args
      else if name = JStr ''hubspot_get_company'' then hubspot_get_company h args
      else if name = JStr ''hubspot_create_company'' then hubspot_create_company h args
      else if name = JStr ''hubspot_update_company'' then hubspot_update_company h args
      else if name = JStr ''hubspot_delete_company'' then hubspot_delete_company h args
      else if name = JStr ''hubspot_search_companies'' then hubspot_search_companies h args
      else if name = JStr ''hubspot_contact_properties'' then hubspot_contact_properties h args
      else if name = JStr ''hubspot_company_properties'' then hubspot_company_properties h args
      else if name = JStr ''hubspot_list_owners'' then hubspot_list_owners h args
      else if name = JStr ''hubspot_get_owner'' then hubspot_get_owner h args
      else if name = JStr ''hubspot_get_engagements'' then hubspot_get_engagements h args
      else if name = JStr ''hubspot_log_email'' then hubspot_log_email h args
      else if name = JStr ''hubspot_create_note'' then hubspot_create_note h args
      else if name = JStr ''hubspot_create_task'' then hubspot_create_task h args
      else if name = JStr ''hubspot_search_tasks'' then hubspot_search_tasks h args
      else if name = JStr ''hubspot_update_task'' then hubspot_update_task h args
      else if name = JStr ''hubspot_get_deal'' then hubspot_get_deal h args
      else if name = JStr ''hubspot_create_deal'' then hubspot_create_deal h args
      else if name = JStr ''hubspot_update_deal'' then hubspot_update_deal h args
      else if name = JStr ''hubspot_search_deals'' then hubspot_search_deals h args
      else if name = JStr ''hubspot_delete_deal'' then hubspot_delete_deal h args
      else if name = JStr ''hubspot_deal_properties'' then hubspot_deal_properties h args
      else if name = JStr ''hubspot_list_pipelines'' then hubspot_list_pipelines h args
      else throw (Error (''Unknown tool: '' @ String_of h name)))"

text \<open>\<^verbatim>\<open>handleTool\<close> (lines 669 to 1114): the result is serialised into one text block.\<close>

definition handleTool :: "host \<Rightarrow> jsval \<Rightarrow> jsval \<Rightarrow> jsval async" where
  "handleTool h name args =
     andThen (tool_result h name args)
       (\<lambda>result.
          ret (JObj [(''content'',
                     JArr [JObj [(''type'', JStr ''text''),
                                 (''text'', JStr (jsonStringify h result))]])]))"


section \<open>Protocol router\<close>

definition MCP_VERSION :: string where
  "MCP_VERSION = ''2024-11-05''"

definition SERVER_NAME :: string where
  "SERVER_NAME = ''hubspot-crm-mcp''"

definition SERVER_VERSION :: string where
  "SERVER_VERSION = ''1.3.0''"

record http_request =
  http_method :: string
  http_body :: jsval

record http_response =
  status :: nat
  headers :: "(string \<times> string) list"
  json :: "jsval option"

definition CORS_HEADERS :: "(string \<times> string) list" where
  "CORS_HEADERS =
     [(''Access-Control-Allow-Origin'', ''*''),
      (''Access-Control-Allow-Methods'', ''POST, OPTIONS''),
      (''Access-Control-Allow-Headers'', ''Content-Type'')]"

definition respond :: "nat \<Rightarrow> jsval option \<Rightarrow> http_response" where
  "respond code payload = \<lparr>status = code, headers = CORS_HEADERS, json = payload\<rparr>"

definition rpc_result :: "jsval \<Rightarrow> jsval \<Rightarrow> http_response" where
  "rpc_result result ident =
     respond 200 (Some (JObj [(''jsonrpc'', JStr ''2.0''), (''result'', result), (''id'', ident)]))"

definition rpc_error :: "int \<Rightarrow> string \<Rightarrow> jsval \<Rightarrow> http_response" where
  "rpc_error code message ident =
     respond 200
       (Some (JObj [(''jsonrpc'', JStr ''2.0''),
                    (''error'', JObj [(''code'', JNum (Fin (of_int code))),
                                      (''message'', JStr message)]),
                    (''id'', ident)]))"

text \<open>The message the \<^verbatim>\<open>catch\<close> block reads from a thrown value.\<close>

definition error_message :: "host \<Rightarrow> error \<Rightarrow> string" where
  "error_message h e =
     (case e of Error m \<Rightarrow> m | TypeError \<Rightarrow> typeErrorMessage h | Rejected m \<Rightarrow> m)"

text \<open>The \<^verbatim>\<open>try\<close> block of \<^verbatim>\<open>handler\<close> (lines 1131 to 1160).\<close>

definition route :: "host \<Rightarrow> jsval \<Rightarrow> http_response async" where
  "route h rbody =
     (if rbody = JUndefined \<or> rbody = JNull then throw TypeError
      else
        let rpc_method = get rbody ''method'';
            params = get rbody ''params'';
            ident = get rbody ''id''
        in
        if rpc_method = JStr ''initialize''
        then ret (rpc_result
                    (JObj [(''protocolVersion'', JStr MCP_VERSION),
                           (''capabilities'', JObj [(''tools'', JObj [])]),
                           (''serverInfo'',
                            JObj [(''name'', JStr SERVER_NAME),
                                  (''version'', JStr SERVER_VERSION)])])
                    ident)
        else if rpc_method = JStr ''tools/list''
        then ret (rpc_result (JObj [(''tools'', TOOLS)]) ident)
        else if rpc_method = JStr ''tools/call''
        then
          andThen (lift (read params ''name''))
            (\<lambda>name.
               andThen (handleTool h name (js_or (get params ''arguments'') (JObj [])))
                 (\<lambda>result. ret (rpc_result result ident)))
        else ret (rpc_error (- 32601) (''Method not found: '' @ String_of h rpc_method) ident))"

text \<open>
  \<^verbatim>\<open>handler\<close> (lines 1117 to 1172). In the \<^verbatim>\<open>catch\<close> block \<^verbatim>\<open>req.body?.id\<close> is
  \<^verbatim>\<open>undefined\<close> when there is no body.
\<close>

definition handler :: "host \<Rightarrow> http_request \<Rightarrow> request list \<Rightarrow> http_response \<times> request list" where
  "handler h req tr =
     (if http_method req = ''OPTIONS'' then (respond 200 None, tr)
      else if http_method req \<noteq> ''POST''
      then (respond 405 (Some (JObj [(''error'', JStr ''Method not allowed'')])), tr)
      else
        (case route h (http_body req) tr of
           (Inr resp, tr') \<Rightarrow> (resp, tr')
         | (Inl e, tr') \<Rightarrow>
             (rpc_error (- 32603) (error_message h e) (get (http_body req) ''id''), tr')))"


section \<open>Reference statements\<close>

text \<open>
  The exclusion rule in the words of the specification, to be compared with
  \<^verbatim>\<open>filterResults\<close>. The value of a property of an item is read from its \<^verbatim>\<open>properties\<close>;
  a value contains a term when its case-folded text has the case-folded term as a contiguous
  substring.
\<close>

definition property_value :: "obj \<Rightarrow> string \<Rightarrow> jsval" where
  "property_value item k = get (field item ''properties'') k"

text \<open>The text of a value is \<^verbatim>\<open>String(v)\<close>, case-folded by \<open>lc\<close>.\<close>

definition folded :: "(jsnum \<Rightarrow> string) \<Rightarrow> (string \<Rightarrow> string) \<Rightarrow> jsval \<Rightarrow> string" where
  "folded ns lc v = lc (ToString ns v)"

definition contains_term ::
  "(jsnum \<Rightarrow> string) \<Rightarrow> (string \<Rightarrow> string) \<Rightarrow> string list \<Rightarrow> jsval \<Rightarrow> bool" where
  "contains_term ns lc terms v = (\<exists>t \<in> set terms. sublist (lc t) (folded ns lc v))"

text \<open>As written: every value that is not missing is matched against the terms.\<close>

definition present :: "jsval \<Rightarrow> bool" where
  "present v = (v \<noteq> JUndefined \<and> v \<noteq> JNull)"

definition matched_as_written ::
  "(jsnum \<Rightarrow> string) \<Rightarrow> (string \<Rightarrow> string) \<Rightarrow> string list \<Rightarrow> string list \<Rightarrow> obj \<Rightarrow> bool" where
  "matched_as_written ns lc companies jobTitles item =
     ((present (property_value item ''company'')
         \<and> contains_term ns lc companies (property_value item ''company''))
      \<or> (present (property_value item ''jobtitle'')
         \<and> contains_term ns lc jobTitles (property_value item ''jobtitle'')))"

text \<open>As the code has it: only a truthy value with a non-empty folded text is matched.\<close>

definition has_text :: "(jsnum \<Rightarrow> string) \<Rightarrow> (string \<Rightarrow> string) \<Rightarrow> jsval \<Rightarrow> bool" where
  "has_text ns lc v = (truthy v \<and> folded ns lc v \<noteq> [])"

definition matched ::
  "(jsnum \<Rightarrow> string) \<Rightarrow> (string \<Rightarrow> string) \<Rightarrow> string list \<Rightarrow> string list \<Rightarrow> obj \<Rightarrow> bool" where
  "matched ns lc companies jobTitles item =
     ((has_text ns lc (property_value item ''company'')
         \<and> contains_term ns lc companies (property_value item ''company''))
      \<or> (has_text ns lc (property_value item ''jobtitle'')
         \<and> contains_term ns lc jobTitles (property_value item ''jobtitle'')))"

definition terms_of :: "string list option \<Rightarrow> string list" where
  "terms_of ts = (case ts of None \<Rightarrow> [] | Some xs \<Rightarrow> xs)"

text \<open>An object carries a field when its value is not \<^verbatim>\<open>undefined\<close>.\<close>

definition carries :: "obj \<Rightarrow> string \<Rightarrow> bool" where
  "carries ob k = (field ob k \<noteq> JUndefined)"

text \<open>The server is configured when the credential is a non-empty string.\<close>

definition configured :: "host \<Rightarrow> bool" where
  "configured h = (case token h of None \<Rightarrow> False | Some t \<Rightarrow> t \<noteq> [])"


text \<open>The request that \<^verbatim>\<open>hubspot\<close> sends for a path, a method and a body.\<close>

definition request_of :: "host \<Rightarrow> path \<Rightarrow> string \<Rightarrow> jsval option \<Rightarrow> request" where
  "request_of h p m b =
     \<lparr>path = p, verb = m, bearer = (case token h of None \<Rightarrow> [] | Some t \<Rightarrow> t), body = b\<rparr>"

text \<open>The requests a computation has added to the list it was started with.\<close>

definition issued :: "request list \<Rightarrow> ('a \<times> request list) \<Rightarrow> request list" where
  "issued tr run = drop (length tr) (snd run)"

text \<open>The convenience arguments of the two filtered searches that are truthy.\<close>

definition supplied :: "jsval \<Rightarrow> string list \<Rightarrow> string list" where
  "supplied args keys = filter (\<lambda>k. truthy (get args k)) keys"


text \<open>
  The convenience arguments of the task search and of the deal search, each with the
  property it filters on and the operator of the filter, in the order of the source. The
  filters synthesized from such a table are one per truthy argument, in the order of the
  table, each comparing the property with the text of the argument.
\<close>

definition TASK_CONVENIENCE :: "(string \<times> string \<times> string) list" where
  "TASK_CONVENIENCE =
     [(''ownerId'', ''hubspot_owner_id'', ''EQ''),
      (''status'', ''hs_task_status'', ''EQ''),
      (''dueBefore'', ''hs_timestamp'', ''LT''),
      (''dueAfter'', ''hs_timestamp'', ''GT'')]"

definition DEAL_CONVENIENCE :: "(string \<times> string \<times> string) list" where
  "DEAL_CONVENIENCE =
     [(''ownerId'', ''hubspot_owner_id'', ''EQ''),
      (''dealstage'', ''dealstage'', ''EQ''),
      (''pipeline'', ''pipeline'', ''EQ''),
      (''closeAfter'', ''closedate'', ''GTE''),
      (''closeBefore'', ''closedate'', ''LTE''),
      (''minAmount'', ''amount'', ''GTE'')]"

definition synthesized :: "host \<Rightarrow> jsval \<Rightarrow> (string \<times> string \<times> string) list \<Rightarrow> jsval list" where
  "synthesized h args table =
     map (\<lambda>(key, propertyName, operator).
            JObj [(''propertyName'', JStr propertyName), (''operator'', JStr operator),
                  (''value'', JStr (String_of h (get args key)))])
         (filter (\<lambda>(key, propertyName, operator). truthy (get args key)) table)"


text \<open>
  The outcome of a request sent after the requests \<open>tr\<close>, and the runs in which every
  request of a list was answered with success, each sent after the ones before it.
\<close>

definition answer :: "host \<Rightarrow> request list \<Rightarrow> request \<Rightarrow> error + jsval" where
  "answer h tr req = settle h (verb req) (remote h tr req)"

fun all_succeeded :: "host \<Rightarrow> request list \<Rightarrow> request list \<Rightarrow> bool" where
  "all_succeeded h tr [] = True"
| "all_succeeded h tr (c # cs) = (\<not> isl (answer h tr c) \<and> all_succeeded h (tr @ [c]) cs)"

text \<open>The identifier in the answer to the first request of a run.\<close>

definition created_id :: "host \<Rightarrow> request list \<Rightarrow> request list \<Rightarrow> jsval" where
  "created_id h tr calls =
     (case calls of
        [] \<Rightarrow> JUndefined
      | c # cs \<Rightarrow> (case answer h tr c of Inl e \<Rightarrow> JUndefined | Inr d \<Rightarrow> get d ''id''))"

text \<open>
  The order the specification fixes for a composite create, as methods and paths: the
  primary create first, then the association with the contact, then the one with the company.
\<close>

definition deal_plan :: "host \<Rightarrow> jsval \<Rightarrow> jsval \<Rightarrow> (string \<times> path) list" where
  "deal_plan h args ident =
     [(''POST'', Path ''/crm/v3/objects/deals'')]
     @ (if truthy (get args ''contactId'')
        then [(''PUT'', association_path h ''deals'' ident ''contacts''
                 (String_of h (get args ''contactId'')) ''deal_to_contact'')]
        else [])
     @ (if truthy (get args ''companyId'')
        then [(''PUT'', association_path h ''deals'' ident ''companies''
                 (String_of h (get args ''companyId'')) ''deal_to_company'')]
        else [])"

definition linked_plan ::
  "host \<Rightarrow> jsval \<Rightarrow> string \<Rightarrow> string \<Rightarrow> jsval \<Rightarrow> (string \<times> path) list" where
  "linked_plan h args objectType label ident =
     [(''POST'', Path (''/crm/v3/objects/'' @ objectType)),
      (''PUT'', association_path h objectType ident ''contacts''
          (String_of h (get args ''contactId'')) label)]"

text \<open>
  A run is sequential for a plan when it only adds requests, the requests it added are an
  initial part of the plan, every request but the last was answered with success, and a run
  that returns a result has sent the whole plan and had every request answered with success.
\<close>

definition sequential ::
  "host \<Rightarrow> request list \<Rightarrow> (error + jsval) \<times> request list
     \<Rightarrow> (jsval \<Rightarrow> (string \<times> path) list) \<Rightarrow> bool" where
  "sequential h tr run plan =
     (let calls = issued tr run;
          planned = plan (created_id h tr calls)
      in snd run = tr @ calls
         \<and> prefix (map (\<lambda>c. (verb c, path c)) calls) planned
         \<and> all_succeeded h tr (butlast calls)
         \<and> (\<not> isl (fst run) \<longrightarrow> length calls = length planned \<and> all_succeeded h tr calls))"

text \<open>
  The answer to the first request of a run describes the created object when it is a
  success whose value is neither \<^verbatim>\<open>undefined\<close> nor \<^verbatim>\<open>null\<close>, so that its \<^verbatim>\<open>id\<close> can be read.
\<close>

definition described :: "host \<Rightarrow> request list \<Rightarrow> request list \<Rightarrow> bool" where
  "described h tr calls =
     (case calls of
        [] \<Rightarrow> False
      | c # cs \<Rightarrow>
          (case answer h tr c of Inl e \<Rightarrow> False | Inr d \<Rightarrow> d \<noteq> JUndefined \<and> d \<noteq> JNull))"

text \<open>
  A run carries out a plan when, without a credential, it fails at once and sends nothing,
  and with one it sends at least one request and ends in one of three ways: the last request
  it sent failed, and the run fails with the failure of that request; or every request
  succeeded but the first answer does not describe the created object, and the run fails
  with a \<^verbatim>\<open>TypeError\<close> after that one request; or every request succeeded, the requests
  the run has sent are those of the plan, method and path, in the order of the plan, and the
  run returns a result.
\<close>

definition carried_out ::
  "host \<Rightarrow> request list \<Rightarrow> (error + jsval) \<times> request list
     \<Rightarrow> (jsval \<Rightarrow> (string \<times> path) list) \<Rightarrow> bool" where
  "carried_out h tr run plan =
     (let calls = issued tr run;
          planned = plan (created_id h tr calls)
      in if \<not> configured h
         then run = (Inl (Error ''HUBSPOT_ACCESS_TOKEN not configured''), tr)
         else calls \<noteq> []
              \<and> (if \<not> all_succeeded h tr calls
                  then fst run = answer h (tr @ butlast calls) (last calls)
                  else if \<not> described h tr calls
                  then length calls = 1 \<and> fst run = Inl TypeError
                  else map (\<lambda>c. (verb c, path c)) calls = planned \<and> \<not> isl (fst run)))"

text \<open>
  A remote system is stateless when its answer depends on the request alone. What the task
  of one engagement type yields when it runs alone is its own result. A computation is
  history-free when its outcome does not depend on the requests sent before it.
\<close>

definition stateless :: "host \<Rightarrow> bool" where
  "stateless h = (\<forall>tr req. remote h tr req = remote h [] req)"

definition own_result :: "host \<Rightarrow> jsnum \<Rightarrow> string \<Rightarrow> string \<Rightarrow> jsval list" where
  "own_result h limit contactId type =
     fst (resume_task h limit type
            (fst (hubspot h (lookup_path contactId type) ''GET'' None [])) [])"

definition history_free :: "'a async \<Rightarrow> bool" where
  "history_free m = (\<forall>tr. fst (m tr) = fst (m []))"

section \<open>An example host\<close>

text \<open>
  A concrete host on which the model is run in the examples below. Its number printer is
  exact on the integers the examples use, its string reader knows the empty string only, its
  case folding knows the letters A to Z only, and its remote system answers by path alone.
\<close>

definition lower_char :: "char \<Rightarrow> char" where
  "lower_char c =
     (case map_of (zip ''ABCDEFGHIJKLMNOPQRSTUVWXYZ'' ''abcdefghijklmnopqrstuvwxyz'') c of
        Some d \<Rightarrow> d | None \<Rightarrow> c)"

definition demo_toLowerCase :: "string \<Rightarrow> string" where
  "demo_toLowerCase s = map lower_char s"

definition demo_numberToString :: "jsnum \<Rightarrow> string" where
  "demo_numberToString n =
     (case n of
        NaN \<Rightarrow> ''NaN''
      | PosInf \<Rightarrow> ''Infinity''
      | NegInf \<Rightarrow> ''-Infinity''
      | Fin x \<Rightarrow> if x < 0 then ''-'' @ index_text (nat \<lfloor>- x\<rfloor>) else index_text (nat \<lfloor>x\<rfloor>))"

definition demo_remote :: "request list \<Rightarrow> request \<Rightarrow> response" where
  "demo_remote tr req =
     (if path req = Path ''/crm/v3/objects/deals'' \<and> verb req = ''POST''
      then HttpOk (Inr (JObj [(''id'', JStr ''501''),
                              (''properties'', JObj [(''dealname'', JStr ''Q1 Renewal'')])]))
      else if path req = Path ''/crm/v3/objects/emails'' \<and> verb req = ''POST''
      then HttpOk (Inr (JObj [(''id'', JStr ''601''), (''properties'', JObj [])]))
      else if path req = Path ''/crm/v3/objects/deals/501/associations/contacts/404/deal_to_contact''
      then HttpError 404 ''contact not found''
      else if path req = Path ''/crm/v4/objects/contacts/10/associations/calls''
      then NetworkError ''fetch failed''
      else if path req = Path ''/crm/v4/objects/contacts/10/associations/emails''
      then HttpOk (Inr (JObj [(''results'', JArr [JObj [(''toObjectId'', JStr ''7'')]])]))
      else if path req = Path ''/crm/v3/objects/emails/batch/read''
      then HttpOk (Inr (JObj [(''results'',
             JArr [JObj [(''id'', JStr ''7''),
                         (''properties'', JObj [(''hs_email_subject'', JStr ''Hello'')])]])]))
      else HttpOk (Inr (JObj [(''results'', JArr [])])))"

definition demo_host :: host where
  "demo_host =
     \<lparr>token = Some ''secret'', remote = demo_remote, numberToString = demo_numberToString,
      stringToNumber = (\<lambda>s. if s = [] then Fin 0 else NaN), toLowerCase = demo_toLowerCase,
      jsonStringify = (\<lambda>v. ''{}''),
      typeErrorMessage = ''TypeError'', now = ''2025-01-01T00:00:00.000Z'',
      tomorrow = ''2025-01-02T00:00:00.000Z''\<rparr>"


section \<open>Properties of the compactor\<close>

lemma includes_sublist: "str_includes s t \<longleftrightarrow> sublist t s"
  by (induction s) (auto simp: sublist_Cons_right)







section \<open>Properties of the filter\<close>

lemma keep_item_matched:
  assumes "lc [] = []"
  shows "keep_item ns lc (map lc ec) (map lc ej) item \<longleftrightarrow> \<not> matched ns lc ec ej item"
proof (cases "truthy (field item ''properties'')")
  case True
  with assms show ?thesis
    by (auto simp: keep_item_def matched_def has_text_def contains_term_def folded_def
          property_value_def Let_def js_or_def list_ex_iff includes_sublist)
next
  case False
  then have "get (field item ''properties'') k = JUndefined" for k
    by (cases "field item ''properties''") (simp_all add: get_def)
  with False show ?thesis
    by (simp add: keep_item_def matched_def has_text_def property_value_def Let_def)
qed

text \<open>
  Claim C2, amended. \<^verbatim>\<open>filterResults\<close> keeps exactly the items that are not matched, in
  their order; the count of excluded items is the length of the input minus the length of
  the kept list; with both exclusion lists empty the input is returned unchanged with count
  0. An item is matched when its \<^verbatim>\<open>company\<close> is truthy, has a non-empty case-folded text and
  that text contains a case-folded term of \<^verbatim>\<open>excludeCompanies\<close>, or likewise for
  \<^verbatim>\<open>jobtitle\<close> and \<^verbatim>\<open>excludeJobTitles\<close>. This holds for every case folding \<open>lc\<close> that
  leaves the empty string empty, the engine's \<^verbatim>\<open>toLowerCase\<close> among them.
\<close>

theorem filter_contract:
  "(lc [] = [] \<longrightarrow>
      fst (filterResults ns lc rs opts) =
        filter (\<lambda>item. \<not> matched ns lc (terms_of (excludeCompanies opts))
                            (terms_of (excludeJobTitles opts)) item) rs)
   \<and> snd (filterResults ns lc rs opts) = length rs - length (fst (filterResults ns lc rs opts))
   \<and> subseq (fst (filterResults ns lc rs opts)) rs
   \<and> (terms_of (excludeCompanies opts') = [] \<and> terms_of (excludeJobTitles opts') = []
        \<longrightarrow> filterResults ns lc rs opts' = (rs, 0))"
proof -
  define ec where "ec = terms_of (excludeCompanies opts)"
  define ej where "ej = terms_of (excludeJobTitles opts)"
  have unfold: "filterResults ns lc rs opts =
      (if ec = [] \<and> ej = [] then (rs, 0)
       else (filter (keep_item ns lc (map lc ec) (map lc ej)) rs,
             length rs - length (filter (keep_item ns lc (map lc ec) (map lc ej)) rs)))"
    by (simp add: filterResults_def Let_def terms_of_def ec_def ej_def)
  have none: "\<not> matched ns lc [] [] item" for item
    by (simp add: matched_def contains_term_def)
  have kept: "fst (filterResults ns lc rs opts) =
     filter (\<lambda>item. \<not> matched ns lc (terms_of (excludeCompanies opts))
                         (terms_of (excludeJobTitles opts)) item) rs"
    if lc: "lc [] = []"
  proof (cases "ec = [] \<and> ej = []")
    case True
    then show ?thesis using none by (simp add: unfold ec_def [symmetric] ej_def [symmetric])
  next
    case False
    have "keep_item ns lc (map lc ec) (map lc ej) = (\<lambda>item. \<not> matched ns lc ec ej item)"
      by (rule ext) (rule keep_item_matched, rule lc)
    with False show ?thesis
      by (auto simp: unfold ec_def [symmetric] ej_def [symmetric])
  qed
  have count: "snd (filterResults ns lc rs opts)
      = length rs - length (fst (filterResults ns lc rs opts))"
    by (simp add: filterResults_def Let_def)
  have sub: "subseq (fst (filterResults ns lc rs opts)) rs"
    by (simp add: unfold)
  have empty: "terms_of (excludeCompanies opts') = [] \<and> terms_of (excludeJobTitles opts') = []
        \<longrightarrow> filterResults ns lc rs opts' = (rs, 0)"
    by (simp add: filterResults_def Let_def terms_of_def)
  from kept count sub empty show ?thesis by blast
qed

text \<open>Two contacts, one of them at a company that contains the term.\<close>

theorem filter_contract_witness:
  "demo_toLowerCase [] = []
   \<and> fst (filterResults demo_numberToString demo_toLowerCase
          [[(''properties'', JObj [(''company'', JStr ''Acme Corp'')])],
           [(''properties'', JObj [(''company'', JStr ''Other'')])]]
          \<lparr>excludeCompanies = Some [''ACME''], excludeJobTitles = None\<rparr>)
     = [[(''properties'', JObj [(''company'', JStr ''Other'')])]]
   \<and> snd (filterResults demo_numberToString demo_toLowerCase
          [[(''properties'', JObj [(''company'', JStr ''Acme Corp'')])],
           [(''properties'', JObj [(''company'', JStr ''Other'')])]]
          \<lparr>excludeCompanies = Some [''ACME''], excludeJobTitles = None\<rparr>) = 1
   \<and> terms_of (excludeCompanies \<lparr>excludeCompanies = Some [], excludeJobTitles = None\<rparr>) = []
   \<and> terms_of (excludeJobTitles \<lparr>excludeCompanies = Some [], excludeJobTitles = None\<rparr>) = []
   \<and> filterResults demo_numberToString demo_toLowerCase
          [[(''properties'', JObj [(''company'', JStr ''Acme Corp'')])],
           [(''properties'', JObj [(''company'', JStr ''Other'')])]]
          \<lparr>excludeCompanies = Some [], excludeJobTitles = None\<rparr>
     = ([[(''properties'', JObj [(''company'', JStr ''Acme Corp'')])],
         [(''properties'', JObj [(''company'', JStr ''Other'')])]], 0)"
  using filter_contract
          [where ns = demo_numberToString and lc = demo_toLowerCase
             and rs = "[[(''properties'', JObj [(''company'', JStr ''Acme Corp'')])],
                        [(''properties'', JObj [(''company'', JStr ''Other'')])]]"
             and opts = "\<lparr>excludeCompanies = Some [''ACME''], excludeJobTitles = None\<rparr>"
             and opts' = "\<lparr>excludeCompanies = Some [], excludeJobTitles = None\<rparr>"]
  by (simp add: matched_def has_text_def contains_term_def folded_def property_value_def
        get_def field_def demo_toLowerCase_def lower_char_def terms_of_def
        includes_sublist [symmetric])

text \<open>
  Claim C2 as written fails: a contact whose \<^verbatim>\<open>company\<close> is present and is the empty string
  contains the empty exclusion term, and is kept.
\<close>

theorem filter_counterexample:
  "matched_as_written demo_numberToString demo_toLowerCase [[]] []
     [(''properties'', JObj [(''company'', JStr [])])]
   \<and> fst (filterResults demo_numberToString demo_toLowerCase
            [[(''properties'', JObj [(''company'', JStr [])])]]
            \<lparr>excludeCompanies = Some [[]], excludeJobTitles = Some []\<rparr>)
       = [[(''properties'', JObj [(''company'', JStr [])])]]"
  by (simp add: matched_as_written_def present_def contains_term_def folded_def
        property_value_def get_def field_def demo_toLowerCase_def filterResults_def
        keep_item_def js_or_def Let_def)


section \<open>Properties of the metadata fields\<close>

lemma field_append:
  "field (xs @ ys) k = (if k \<in> fst ` set xs then field xs k else field ys k)"
proof (cases "map_of xs k")
  case None
  then have "k \<notin> fst ` set xs" by (simp add: map_of_eq_None_iff)
  with None show ?thesis by (simp add: field_def map_add_def)
next
  case (Some v)
  then have "k \<in> fst ` set xs" by (metis map_of_eq_None_iff option.distinct(1))
  with Some show ?thesis by (simp add: field_def map_add_def)
qed

lemma compactResult_meta:
  "compactResult item opts =
     (let base = [(''id'', field item ''id'')]
              @ (case field item ''properties'' of
                   JObj ps \<Rightarrow> [(''properties'', JObj (truncateProperties ps
                       (case maxPropertyLength opts of None \<Rightarrow> DEFAULT_MAX_PROPERTY_LENGTH | Some n \<Rightarrow> n)))]
                 | JArr vs \<Rightarrow> [(''properties'', JObj (truncateProperties (entries vs)
                       (case maxPropertyLength opts of None \<Rightarrow> DEFAULT_MAX_PROPERTY_LENGTH | Some n \<Rightarrow> n)))]
                 | _ \<Rightarrow> [])
      in if includeMetadata opts = Some True then
        base
        @ (if truthy (field item ''createdAt'')
           then [(''createdAt'', field item ''createdAt'')] else [])
        @ (if truthy (field item ''updatedAt'')
           then [(''updatedAt'', field item ''updatedAt'')] else [])
        @ (if field item ''archived'' \<noteq> JUndefined
           then [(''archived'', field item ''archived'')] else [])
        @ (if truthy (field item ''url'') then [(''url'', field item ''url'')] else [])
      else base)"
  by (simp add: compactResult_def Let_def split: option.splits jsval.splits)


lemma field_Cons: "field ((k', v) # xs) k = (if k = k' then v else field xs k)"
  by (simp add: field_def)

lemma field_Nil: "field [] k = JUndefined"
  by (simp add: field_def)

lemma field_optional:
  "field ((if c then [(k', v)] else []) @ ys) k = (if c \<and> k = k' then v else field ys k)"
  by (simp add: field_def)

lemma field_optional_last:
  "field (if c then [(k', v)] else []) k = (if c \<and> k = k' then v else JUndefined)"
  by (simp add: field_def)

lemma field_compactResult:
  assumes "k \<noteq> ''id''" and "k \<noteq> ''properties''"
  shows "field (compactResult item opts) k =
     (if includeMetadata opts = Some True then
        (if truthy (field item ''createdAt'') \<and> k = ''createdAt'' then field item ''createdAt''
         else if truthy (field item ''updatedAt'') \<and> k = ''updatedAt''
         then field item ''updatedAt''
         else if field item ''archived'' \<noteq> JUndefined \<and> k = ''archived''
         then field item ''archived''
         else if truthy (field item ''url'') \<and> k = ''url'' then field item ''url''
         else JUndefined)
      else JUndefined)"
proof -
  define base where "base = [(''id'', field item ''id'')]
              @ (case field item ''properties'' of
                   JObj ps \<Rightarrow> [(''properties'', JObj (truncateProperties ps
                       (case maxPropertyLength opts of None \<Rightarrow> DEFAULT_MAX_PROPERTY_LENGTH | Some n \<Rightarrow> n)))]
                 | JArr vs \<Rightarrow> [(''properties'', JObj (truncateProperties (entries vs)
                       (case maxPropertyLength opts of None \<Rightarrow> DEFAULT_MAX_PROPERTY_LENGTH | Some n \<Rightarrow> n)))]
                 | _ \<Rightarrow> [])"
  have base: "field (base @ ys) k = field ys k" for ys
    using assms by (cases "field item ''properties''") (simp_all add: base_def field_Cons)
  have base': "field base k = JUndefined"
    using base [of "[]"] by (simp add: field_Nil)
  show ?thesis
    unfolding compactResult_meta base_def [symmetric] Let_def
    by (simp only: base base' field_optional if_distrib [of "\<lambda>xs. field xs k"])
      (simp add: field_Cons field_Nil)
qed

text \<open>
  Claim C6, amended. The compacted object carries \<^verbatim>\<open>createdAt\<close>, \<^verbatim>\<open>updatedAt\<close> or \<^verbatim>\<open>url\<close>
  exactly when \<^verbatim>\<open>includeMetadata\<close> is true and the value of the field in the source object
  is truthy; it carries \<^verbatim>\<open>archived\<close> exactly when \<^verbatim>\<open>includeMetadata\<close> is true and the source
  object carries it. A metadata field that is carried has the value of the source object.
\<close>

theorem metadata_contract:
  "(carries (compactResult item opts) ''createdAt''
      \<longleftrightarrow> includeMetadata opts = Some True \<and> truthy (field item ''createdAt''))
   \<and> (carries (compactResult item opts) ''updatedAt''
      \<longleftrightarrow> includeMetadata opts = Some True \<and> truthy (field item ''updatedAt''))
   \<and> (carries (compactResult item opts) ''archived''
      \<longleftrightarrow> includeMetadata opts = Some True \<and> carries item ''archived'')
   \<and> (carries (compactResult item opts) ''url''
      \<longleftrightarrow> includeMetadata opts = Some True \<and> truthy (field item ''url''))
   \<and> (k \<in> {''createdAt'', ''updatedAt'', ''archived'', ''url''}
        \<and> carries (compactResult item opts) k
      \<longrightarrow> field (compactResult item opts) k = field item k)"
proof -
  have t: "truthy v \<Longrightarrow> v \<noteq> JUndefined" for v by auto
  have c: "carries (compactResult item opts) ''createdAt''
      \<longleftrightarrow> includeMetadata opts = Some True \<and> truthy (field item ''createdAt'')"
    using t by (simp add: carries_def field_compactResult)
  have u: "carries (compactResult item opts) ''updatedAt''
      \<longleftrightarrow> includeMetadata opts = Some True \<and> truthy (field item ''updatedAt'')"
    using t by (simp add: carries_def field_compactResult)
  have a: "carries (compactResult item opts) ''archived''
      \<longleftrightarrow> includeMetadata opts = Some True \<and> carries item ''archived''"
    by (simp add: carries_def field_compactResult)
  have l: "carries (compactResult item opts) ''url''
      \<longleftrightarrow> includeMetadata opts = Some True \<and> truthy (field item ''url'')"
    using t by (simp add: carries_def field_compactResult)
  have v: "k \<in> {''createdAt'', ''updatedAt'', ''archived'', ''url''}
        \<and> carries (compactResult item opts) k
      \<longrightarrow> field (compactResult item opts) k = field item k"
  proof (intro impI, elim conjE)
    assume k: "k \<in> {''createdAt'', ''updatedAt'', ''archived'', ''url''}"
      and car: "carries (compactResult item opts) k"
    from k have "k \<noteq> ''id''" "k \<noteq> ''properties''" by auto
    from field_compactResult [OF this, of item opts] car
    show "field (compactResult item opts) k = field item k"
      by (simp add: carries_def split: if_splits)
  qed
  from c u a l v show ?thesis by blast
qed

text \<open>A contact with a creation date and the flag \<^verbatim>\<open>archived: false\<close>, and no link.\<close>

theorem metadata_contract_witness:
  "carries (compactResult [(''id'', JStr ''1''), (''createdAt'', JStr ''2024-01-01''),
              (''archived'', JBool False)]
              \<lparr>maxPropertyLength = None, includeMetadata = Some True\<rparr>) ''createdAt''
   \<and> carries (compactResult [(''id'', JStr ''1''), (''createdAt'', JStr ''2024-01-01''),
              (''archived'', JBool False)]
              \<lparr>maxPropertyLength = None, includeMetadata = Some True\<rparr>) ''archived''
   \<and> \<not> carries (compactResult [(''id'', JStr ''1''), (''createdAt'', JStr ''2024-01-01''),
              (''archived'', JBool False)]
              \<lparr>maxPropertyLength = None, includeMetadata = Some True\<rparr>) ''url''
   \<and> ''createdAt'' \<in> {''createdAt'', ''updatedAt'', ''archived'', ''url''}
   \<and> field (compactResult [(''id'', JStr ''1''), (''createdAt'', JStr ''2024-01-01''),
              (''archived'', JBool False)]
              \<lparr>maxPropertyLength = None, includeMetadata = Some True\<rparr>) ''createdAt''
       = JStr ''2024-01-01''"
  using metadata_contract
          [of "[(''id'', JStr ''1''), (''createdAt'', JStr ''2024-01-01''),
                (''archived'', JBool False)]"
              "\<lparr>maxPropertyLength = None, includeMetadata = Some True\<rparr>" "''createdAt''"]
  by (simp add: field_Cons field_Nil carries_def)

text \<open>
  Claim C6 as written fails: a source object that carries \<^verbatim>\<open>url\<close> with the empty string
  as its value loses the field although \<^verbatim>\<open>includeMetadata\<close> is true.
\<close>

theorem metadata_counterexample:
  "carries [(''id'', JStr ''1''), (''url'', JStr [])] ''url''
   \<and> \<not> carries (compactResult [(''id'', JStr ''1''), (''url'', JStr [])]
                  \<lparr>maxPropertyLength = None, includeMetadata = Some True\<rparr>) ''url''"
  by (simp add: carries_def compactResult_def field_def)


section \<open>Properties of the router and the dispatcher\<close>

lemma tool_result_unknown:
  "name \<notin> set TOOL_NAMES \<Longrightarrow>
     tool_result h (JStr name) args = throw (Error (''Unknown tool: '' @ name))"
  by (simp add: tool_result_def TOOL_NAMES_def String_of_def)

text \<open>
  Claim C3. A \<^verbatim>\<open>tools/call\<close> request posted with a tool name that is not in the catalog is
  answered with HTTP status 200 and a JSON-RPC error of code -32603 whose message is
  \<^verbatim>\<open>Unknown tool: \<close> followed by the name, with the id of the request; no request is sent
  to the remote system, and the handler returns a response rather than failing.
\<close>

theorem unknown_tool_contract:
  "get rbody ''method'' = JStr ''tools/call''
   \<and> get (get rbody ''params'') ''name'' = JStr name
   \<and> name \<notin> set TOOL_NAMES
   \<longrightarrow> handler h \<lparr>http_method = ''POST'', http_body = rbody\<rparr> tr =
         (\<lparr>status = 200, headers = CORS_HEADERS,
           json = Some (JObj [(''jsonrpc'', JStr ''2.0''),
                              (''error'', JObj [(''code'', JNum (Fin (- 32603))),
                                                (''message'', JStr (''Unknown tool: '' @ name))]),
                              (''id'', get rbody ''id'')])\<rparr>,
          tr)
       \<and> sublist name (''Unknown tool: '' @ name)"
proof (intro impI, elim conjE)
  assume m: "get rbody ''method'' = JStr ''tools/call''"
    and n: "get (get rbody ''params'') ''name'' = JStr name"
    and u: "name \<notin> set TOOL_NAMES"
  from m have b: "rbody \<noteq> JUndefined" "rbody \<noteq> JNull" by (auto simp: get_def)
  from n have p: "get rbody ''params'' \<noteq> JUndefined" "get rbody ''params'' \<noteq> JNull"
    by (auto simp: get_def)
  have "route h rbody tr = (Inl (Error (''Unknown tool: '' @ name)), tr)"
    using b p m n
    by (simp add: route_def Let_def andThen_def lift_def read_def handleTool_def
          tool_result_unknown [OF u] throw_def)
  then have "handler h \<lparr>http_method = ''POST'', http_body = rbody\<rparr> tr =
      (rpc_error (- 32603) (''Unknown tool: '' @ name) (get rbody ''id''), tr)"
    by (simp add: handler_def error_message_def)
  moreover have "sublist name (''Unknown tool: '' @ name)"
    unfolding sublist_def by (intro exI [of _ "''Unknown tool: ''"] exI [of _ "[]"]) simp
  ultimately show "handler h \<lparr>http_method = ''POST'', http_body = rbody\<rparr> tr =
         (\<lparr>status = 200, headers = CORS_HEADERS,
           json = Some (JObj [(''jsonrpc'', JStr ''2.0''),
                              (''error'', JObj [(''code'', JNum (Fin (- 32603))),
                                                (''message'', JStr (''Unknown tool: '' @ name))]),
                              (''id'', get rbody ''id'')])\<rparr>,
          tr)
       \<and> sublist name (''Unknown tool: '' @ name)"
    by (simp add: rpc_error_def respond_def)
qed

text \<open>A call of a tool the catalog does not have.\<close>

theorem unknown_tool_contract_witness:
  "get (JObj [(''jsonrpc'', JStr ''2.0''), (''method'', JStr ''tools/call''),
              (''params'', JObj [(''name'', JStr ''hubspot_merge_contacts'')]),
              (''id'', JNum (Fin 7))]) ''method'' = JStr ''tools/call''
   \<and> ''hubspot_merge_contacts'' \<notin> set TOOL_NAMES
   \<and> handler demo_host
        \<lparr>http_method = ''POST'',
         http_body = JObj [(''jsonrpc'', JStr ''2.0''), (''method'', JStr ''tools/call''),
                           (''params'', JObj [(''name'', JStr ''hubspot_merge_contacts'')]),
                           (''id'', JNum (Fin 7))]\<rparr> []
       = (\<lparr>status = 200, headers = CORS_HEADERS,
           json = Some (JObj [(''jsonrpc'', JStr ''2.0''),
                              (''error'',
                               JObj [(''code'', JNum (Fin (- 32603))),
                                     (''message'', JStr ''Unknown tool: hubspot_merge_contacts'')]),
                              (''id'', JNum (Fin 7))])\<rparr>,
          [])"
  using unknown_tool_contract
          [of "JObj [(''jsonrpc'', JStr ''2.0''), (''method'', JStr ''tools/call''),
                     (''params'', JObj [(''name'', JStr ''hubspot_merge_contacts'')]),
                     (''id'', JNum (Fin 7))]"
              "''hubspot_merge_contacts''" demo_host "[]"]
  by (simp add: get_def field_def TOOL_NAMES_def)

lemma optional_property_falsy:
  "\<not> truthy (get args key) \<Longrightarrow> optional_property h args key name = []"
  by (simp add: optional_property_def)

lemma supplied_empty: "supplied args keys = [] \<longleftrightarrow> (\<forall>k \<in> set keys. \<not> truthy (get args k))"
  by (simp add: supplied_def filter_empty_conv)

text \<open>
  Claim C9. When none of the optional update fields of \<^verbatim>\<open>hubspot_update_task\<close> (or of
  \<^verbatim>\<open>hubspot_update_deal\<close>) is truthy, in particular when none is supplied, the tool fails
  with the error \<^verbatim>\<open>At least one property to update must be provided\<close> and the list of
  requests sent to the remote system is unchanged.
\<close>

theorem empty_update_contract:
  "(supplied args [''status'', ''subject'', ''body'', ''dueDate'', ''ownerId'', ''priority''] = []
     \<longrightarrow> tool_result h (JStr ''hubspot_update_task'') args tr =
           (Inl (Error ''At least one property to update must be provided''), tr))
   \<and> (supplied args' [''dealname'', ''amount'', ''closedate'', ''dealstage'', ''ownerId''] = []
     \<longrightarrow> tool_result h (JStr ''hubspot_update_deal'') args' tr =
           (Inl (Error ''At least one property to update must be provided''), tr))
   \<and> prefix ''At least one property'' ''At least one property to update must be provided''"
  by (simp add: supplied_empty tool_result_def hubspot_update_task_def hubspot_update_deal_def
        update_task_properties_def update_deal_properties_def optional_property_falsy throw_def)

text \<open>An update that names only the task, and one that names only the deal.\<close>

theorem empty_update_contract_witness:
  "supplied (JObj [(''taskId'', JStr ''42'')])
     [''status'', ''subject'', ''body'', ''dueDate'', ''ownerId'', ''priority''] = []
   \<and> tool_result demo_host (JStr ''hubspot_update_task'') (JObj [(''taskId'', JStr ''42'')]) [] =
           (Inl (Error ''At least one property to update must be provided''), [])
   \<and> supplied (JObj [(''id'', JStr ''9'')])
       [''dealname'', ''amount'', ''closedate'', ''dealstage'', ''ownerId''] = []
   \<and> tool_result demo_host (JStr ''hubspot_update_deal'') (JObj [(''id'', JStr ''9'')]) [] =
           (Inl (Error ''At least one property to update must be provided''), [])"
  using empty_update_contract [of "JObj [(''taskId'', JStr ''42'')]" demo_host "[]"
          "JObj [(''id'', JStr ''9'')]"]
  by (simp add: supplied_def get_def field_def)


section \<open>Properties of the delete tools\<close>

lemma hubspot_configured:
  "configured h \<Longrightarrow>
     hubspot h p m b tr =
       (settle h m (remote h tr (request_of h p m b)), tr @ [request_of h p m b])"
  by (auto simp: hubspot_def configured_def request_of_def Let_def split: option.splits)

lemma hubspot_unconfigured:
  "\<not> configured h \<Longrightarrow>
     hubspot h p m b tr = (Inl (Error ''HUBSPOT_ACCESS_TOKEN not configured''), tr)"
  by (auto simp: hubspot_def configured_def split: option.splits)

lemma snd_andThen_lift:
  "snd (andThen m (\<lambda>x. lift (f x)) tr) = snd (m tr)"
  by (auto simp: andThen_def lift_def split: prod.splits sum.splits)

lemma snd_andThen_ret:
  "snd (andThen m (\<lambda>x. ret (f x)) tr) = snd (m tr)"
  by (auto simp: andThen_def ret_def split: prod.splits sum.splits)

lemma dispatch_delete:
  "tool_result h (JStr ''hubspot_delete_contact'') args = hubspot_delete_contact h args"
  "tool_result h (JStr ''hubspot_delete_company'') args = hubspot_delete_company h args"
  "tool_result h (JStr ''hubspot_delete_deal'') args = hubspot_delete_deal h args"
  by (simp_all add: tool_result_def)

text \<open>
  On a configured server each delete tool sends exactly one request, a \<^verbatim>\<open>DELETE\<close> on the
  path of the object, and no other; when the remote system accepts it,
  \<^verbatim>\<open>hubspot_delete_deal\<close> returns \<^verbatim>\<open>{success: true, deleted: id}\<close>, while
  \<^verbatim>\<open>hubspot_delete_contact\<close> and \<^verbatim>\<open>hubspot_delete_company\<close> return the value of the
  client, \<^verbatim>\<open>{success: true}\<close>.
\<close>

lemma delete_requests:
  assumes "configured h"
  shows "snd (tool_result h (JStr ''hubspot_delete_contact'') args tr) =
           tr @ [request_of h (Path (''/crm/v3/objects/contacts/'' @ String_of h (get args ''id'')))
                   ''DELETE'' None]"
    and "snd (tool_result h (JStr ''hubspot_delete_company'') args tr) =
           tr @ [request_of h (Path (''/crm/v3/objects/companies/'' @ String_of h (get args ''id'')))
                   ''DELETE'' None]"
    and "snd (tool_result h (JStr ''hubspot_delete_deal'') args tr) =
           tr @ [request_of h (Path (''/crm/v3/objects/deals/'' @ String_of h (get args ''id'')))
                   ''DELETE'' None]"
  using assms
  by (simp_all add: dispatch_delete hubspot_delete_contact_def hubspot_delete_company_def
        hubspot_delete_deal_def hubspot_configured snd_andThen_ret)

lemma delete_results:
  assumes "configured h"
  shows "remote h tr (request_of h
            (Path (''/crm/v3/objects/contacts/'' @ String_of h (get args ''id''))) ''DELETE'' None)
           = HttpOk js
         \<Longrightarrow> fst (tool_result h (JStr ''hubspot_delete_contact'') args tr) =
               Inr (JObj [(''success'', JBool True)])"
    and "remote h tr (request_of h
            (Path (''/crm/v3/objects/companies/'' @ String_of h (get args ''id''))) ''DELETE'' None)
           = HttpOk js
         \<Longrightarrow> fst (tool_result h (JStr ''hubspot_delete_company'') args tr) =
               Inr (JObj [(''success'', JBool True)])"
    and "remote h tr (request_of h
            (Path (''/crm/v3/objects/deals/'' @ String_of h (get args ''id''))) ''DELETE'' None)
           = HttpOk js
         \<Longrightarrow> fst (tool_result h (JStr ''hubspot_delete_deal'') args tr) =
               Inr (JObj [(''success'', JBool True), (''deleted'', get args ''id'')])"
  using assms
  by (simp_all add: dispatch_delete hubspot_delete_contact_def hubspot_delete_company_def
        hubspot_delete_deal_def hubspot_configured settle_def andThen_def ret_def)

text \<open>
  Claim C5. The code departs from the claim on two of the three delete tools. Deleting the
  contact 5, and likewise the company 5, sends the one \<^verbatim>\<open>DELETE\<close> request and returns
  \<^verbatim>\<open>{success: true}\<close>, without the field \<^verbatim>\<open>deleted\<close> that the claim requires; deleting the
  deal 5 sends the one request and returns \<^verbatim>\<open>{success: true, deleted: "5"}\<close>, as claimed.
\<close>

theorem delete_divergence:
  "tool_result demo_host (JStr ''hubspot_delete_contact'') (JObj [(''id'', JStr ''5'')]) [] =
       (Inr (JObj [(''success'', JBool True)]),
        [\<lparr>path = Path ''/crm/v3/objects/contacts/5'', verb = ''DELETE'', bearer = ''secret'',
          body = None\<rparr>])
   \<and> tool_result demo_host (JStr ''hubspot_delete_company'') (JObj [(''id'', JStr ''5'')]) [] =
       (Inr (JObj [(''success'', JBool True)]),
        [\<lparr>path = Path ''/crm/v3/objects/companies/5'', verb = ''DELETE'', bearer = ''secret'',
          body = None\<rparr>])
   \<and> tool_result demo_host (JStr ''hubspot_delete_deal'') (JObj [(''id'', JStr ''5'')]) [] =
       (Inr (JObj [(''success'', JBool True), (''deleted'', JStr ''5'')]),
        [\<lparr>path = Path ''/crm/v3/objects/deals/5'', verb = ''DELETE'', bearer = ''secret'',
          body = None\<rparr>])
   \<and> field [(''success'', JBool True)] ''deleted'' = JUndefined"
  by (simp add: dispatch_delete hubspot_delete_contact_def hubspot_delete_company_def
        hubspot_delete_deal_def hubspot_def settle_def andThen_def ret_def demo_host_def
        demo_remote_def get_def field_def String_of_def)


section \<open>Properties of the search bodies\<close>

lemma field_array:
  "field ((case v of JArr ps \<Rightarrow> [(k', JArr ps)] | _ \<Rightarrow> []) @ ys) k =
     (case v of JArr ps \<Rightarrow> if k = k' then JArr ps else field ys k | _ \<Rightarrow> field ys k)"
  by (cases v) (simp_all add: field_Cons)

lemma field_array_last:
  "field (case v of JArr ps \<Rightarrow> [(k', JArr ps)] | _ \<Rightarrow> []) k =
     (case v of JArr ps \<Rightarrow> if k = k' then JArr ps else JUndefined | _ \<Rightarrow> JUndefined)"
  by (cases v) (simp_all add: field_Cons field_Nil)

lemma field_search_body:
  "field (search_body h args) ''properties'' =
     (case get args ''properties'' of JArr ps \<Rightarrow> JArr ps | _ \<Rightarrow> JUndefined)"
  "field (search_body h args) ''sorts'' =
     (case get args ''sorts'' of JArr ss \<Rightarrow> JArr ss | _ \<Rightarrow> JUndefined)"
  "field (search_body h args) ''filterGroups'' =
     (if truthy (get args ''filterGroups'') then get args ''filterGroups'' else JUndefined)"
  by (simp_all add: search_body_def field_Cons field_Nil field_optional field_array
        field_array_last split: jsval.splits)

lemma synthesized_Nil: "synthesized h args [] = []"
  by (simp add: synthesized_def)

lemma synthesized_Cons:
  "synthesized h args ((key, propertyName, operator) # table) =
     convenience_filter h args key propertyName operator @ synthesized h args table"
  by (simp add: synthesized_def convenience_filter_def)

lemma task_filters_synthesized: "task_filters h args = synthesized h args TASK_CONVENIENCE"
  by (simp add: task_filters_def TASK_CONVENIENCE_def synthesized_Cons synthesized_Nil)

lemma deal_filters_synthesized: "deal_filters h args = synthesized h args DEAL_CONVENIENCE"
  by (simp add: deal_filters_def DEAL_CONVENIENCE_def synthesized_Cons synthesized_Nil)

lemma field_search_tasks_body:
  "field (search_tasks_body h args) ''properties'' = JArr (map JStr TASK_PROPERTIES)"
  "field (search_tasks_body h args) ''sorts'' = ascending ''hs_timestamp''"
  "field (search_tasks_body h args) ''filterGroups'' =
     (if synthesized h args TASK_CONVENIENCE = [] then JUndefined
      else JArr [JObj [(''filters'', JArr (synthesized h args TASK_CONVENIENCE))]])"
  by (simp_all add: search_tasks_body_def field_Cons field_Nil task_filters_synthesized)

lemma field_search_deals_body:
  "field (search_deals_body h args) ''properties'' =
     (case get args ''properties'' of JArr ps \<Rightarrow> JArr ps | _ \<Rightarrow> JArr (map JStr DEAL_PROPERTIES))"
  "field (search_deals_body h args) ''sorts'' = ascending ''closedate''"
  "field (search_deals_body h args) ''filterGroups'' =
     (if synthesized h args DEAL_CONVENIENCE = [] then JUndefined
      else JArr [JObj [(''filters'', JArr (synthesized h args DEAL_CONVENIENCE))]])"
  by (simp_all add: search_deals_body_def field_Cons field_Nil field_optional
        deal_filters_synthesized)

lemma dispatch_search:
  "tool_result h (JStr ''hubspot_search_contacts'') args = hubspot_search_contacts h args"
  "tool_result h (JStr ''hubspot_search_companies'') args = hubspot_search_companies h args"
  "tool_result h (JStr ''hubspot_search_tasks'') args = hubspot_search_tasks h args"
  "tool_result h (JStr ''hubspot_search_deals'') args = hubspot_search_deals h args"
  by (simp_all add: tool_result_def)

lemma search_requests:
  assumes "configured h"
  shows "issued tr (tool_result h (JStr ''hubspot_search_contacts'') args tr) =
           [request_of h (Path ''/crm/v3/objects/contacts/search'') ''POST''
              (Some (JObj (search_body h args)))]"
    and "issued tr (tool_result h (JStr ''hubspot_search_companies'') args tr) =
           [request_of h (Path ''/crm/v3/objects/companies/search'') ''POST''
              (Some (JObj (search_body h args)))]"
    and "issued tr (tool_result h (JStr ''hubspot_search_tasks'') args tr) =
           [request_of h (Path ''/crm/v3/objects/tasks/search'') ''POST''
              (Some (JObj (search_tasks_body h args)))]"
    and "issued tr (tool_result h (JStr ''hubspot_search_deals'') args tr) =
           [request_of h (Path ''/crm/v3/objects/deals/search'') ''POST''
              (Some (JObj (search_deals_body h args)))]"
  using assms
  by (simp_all add: issued_def dispatch_search hubspot_search_contacts_def
        hubspot_search_companies_def hubspot_search_tasks_def hubspot_search_deals_def
        hubspot_configured snd_andThen_lift)

text \<open>
  Claim C10, amended. On a configured server each search tool sends one \<^verbatim>\<open>POST\<close> whose body
  is the search body of the tool. For contacts and companies the body has \<^verbatim>\<open>properties\<close>
  and \<^verbatim>\<open>sorts\<close> exactly when the caller gave an array, with that array, and has
  \<^verbatim>\<open>filterGroups\<close> exactly when the caller gave a truthy value, with that value. For tasks
  \<^verbatim>\<open>properties\<close> and \<^verbatim>\<open>sorts\<close> are fixed; for deals \<^verbatim>\<open>properties\<close> is the caller's array or
  else a fixed list, and \<^verbatim>\<open>sorts\<close> is fixed. For tasks and deals the filters are the ones
  synthesized from the convenience arguments: one per truthy argument, in the order of the
  table, with the property and the operator of the table and the text of the argument as
  the value; \<^verbatim>\<open>filterGroups\<close> is present exactly when there is such a filter, so not for an
  argument that is an empty string or 0, and is then one group that holds these filters.
\<close>

theorem search_body_contract:
  "(configured h \<longrightarrow>
      issued tr (tool_result h (JStr ''hubspot_search_contacts'') args tr) =
        [request_of h (Path ''/crm/v3/objects/contacts/search'') ''POST''
           (Some (JObj (search_body h args)))]
      \<and> issued tr (tool_result h (JStr ''hubspot_search_companies'') args tr) =
        [request_of h (Path ''/crm/v3/objects/companies/search'') ''POST''
           (Some (JObj (search_body h args)))]
      \<and> issued tr (tool_result h (JStr ''hubspot_search_tasks'') args tr) =
        [request_of h (Path ''/crm/v3/objects/tasks/search'') ''POST''
           (Some (JObj (search_tasks_body h args)))]
      \<and> issued tr (tool_result h (JStr ''hubspot_search_deals'') args tr) =
        [request_of h (Path ''/crm/v3/objects/deals/search'') ''POST''
           (Some (JObj (search_deals_body h args)))])
   \<and> field (search_body h args) ''properties'' =
       (case get args ''properties'' of JArr ps \<Rightarrow> JArr ps | _ \<Rightarrow> JUndefined)
   \<and> field (search_body h args) ''sorts'' =
       (case get args ''sorts'' of JArr ss \<Rightarrow> JArr ss | _ \<Rightarrow> JUndefined)
   \<and> field (search_body h args) ''filterGroups'' =
       (if truthy (get args ''filterGroups'') then get args ''filterGroups'' else JUndefined)
   \<and> field (search_tasks_body h args) ''properties'' = JArr (map JStr TASK_PROPERTIES)
   \<and> field (search_tasks_body h args) ''sorts'' = ascending ''hs_timestamp''
   \<and> field (search_tasks_body h args) ''filterGroups'' =
       (if synthesized h args TASK_CONVENIENCE = [] then JUndefined
        else JArr [JObj [(''filters'', JArr (synthesized h args TASK_CONVENIENCE))]])
   \<and> task_filters h args = synthesized h args TASK_CONVENIENCE
   \<and> field (search_deals_body h args) ''properties'' =
       (case get args ''properties'' of
          JArr ps \<Rightarrow> JArr ps | _ \<Rightarrow> JArr (map JStr DEAL_PROPERTIES))
   \<and> field (search_deals_body h args) ''sorts'' = ascending ''closedate''
   \<and> field (search_deals_body h args) ''filterGroups'' =
       (if synthesized h args DEAL_CONVENIENCE = [] then JUndefined
        else JArr [JObj [(''filters'', JArr (synthesized h args DEAL_CONVENIENCE))]])
   \<and> deal_filters h args = synthesized h args DEAL_CONVENIENCE"
  by (intro conjI impI search_requests field_search_body field_search_tasks_body
        field_search_deals_body task_filters_synthesized deal_filters_synthesized)

text \<open>
  A task search by status and owner, and a deal search whose owner is the empty string and
  whose least amount is 0.
\<close>

theorem search_body_contract_witness:
  "configured demo_host
   \<and> issued [] (tool_result demo_host (JStr ''hubspot_search_tasks'')
                  (JObj [(''status'', JStr ''NOT_STARTED''), (''ownerId'', JStr ''77'')]) []) =
       [\<lparr>path = Path ''/crm/v3/objects/tasks/search'', verb = ''POST'', bearer = ''secret'',
         body = Some (JObj
           [(''limit'', JNum (Fin 20)),
            (''properties'', JArr (map JStr TASK_PROPERTIES)),
            (''sorts'', ascending ''hs_timestamp''),
            (''filterGroups'',
             JArr [JObj [(''filters'',
               JArr [JObj [(''propertyName'', JStr ''hubspot_owner_id''),
                           (''operator'', JStr ''EQ''), (''value'', JStr ''77'')],
                     JObj [(''propertyName'', JStr ''hs_task_status''),
                           (''operator'', JStr ''EQ''), (''value'', JStr ''NOT_STARTED'')]])]])])\<rparr>]
   \<and> issued [] (tool_result demo_host (JStr ''hubspot_search_deals'')
                  (JObj [(''ownerId'', JStr []), (''minAmount'', JNum (Fin 0))]) []) =
       [\<lparr>path = Path ''/crm/v3/objects/deals/search'', verb = ''POST'', bearer = ''secret'',
         body = Some (JObj
           [(''limit'', JNum (Fin 20)),
            (''properties'', JArr (map JStr DEAL_PROPERTIES)),
            (''sorts'', ascending ''closedate'')])\<rparr>]"
  using search_body_contract
          [where h = demo_host and tr = "[]"
             and args = "JObj [(''status'', JStr ''NOT_STARTED''), (''ownerId'', JStr ''77'')]"]
        search_body_contract
          [where h = demo_host and tr = "[]"
             and args = "JObj [(''ownerId'', JStr []), (''minAmount'', JNum (Fin 0))]"]
  by (simp add: configured_def demo_host_def request_of_def search_tasks_body_def
        search_deals_body_def limit_arg_def Number_of_def num_or_def
        Math_min_def DEFAULT_MAX_RESULTS_def String_of_def get_def field_def
        synthesized_def TASK_CONVENIENCE_def DEAL_CONVENIENCE_def)

text \<open>
  Claim C10 as written fails: a task search without \<^verbatim>\<open>properties\<close> and \<^verbatim>\<open>sorts\<close> sends a body
  that has both.
\<close>

theorem search_body_counterexample:
  "get (JObj []) ''properties'' = JUndefined
   \<and> get (JObj []) ''sorts'' = JUndefined
   \<and> snd (tool_result demo_host (JStr ''hubspot_search_tasks'') (JObj []) []) =
       [\<lparr>path = Path ''/crm/v3/objects/tasks/search'', verb = ''POST'', bearer = ''secret'',
         body = Some (JObj
           [(''limit'', JNum (Fin 20)),
            (''properties'',
             JArr [JStr ''hs_task_subject'', JStr ''hs_task_body'', JStr ''hs_task_status'',
                   JStr ''hs_timestamp'', JStr ''hubspot_owner_id'', JStr ''hs_task_priority'']),
            (''sorts'',
             JArr [JObj [(''propertyName'', JStr ''hs_timestamp''),
                         (''direction'', JStr ''ASCENDING'')]])])\<rparr>]"
  by (simp add: dispatch_search hubspot_search_tasks_def snd_andThen_lift hubspot_def
        demo_host_def search_tasks_body_def task_filters_def convenience_filter_def
        TASK_PROPERTIES_def ascending_def limit_arg_def Number_of_def num_or_def Math_min_def
        DEFAULT_MAX_RESULTS_def get_def field_def Let_def)


section \<open>Properties of the result-size limit\<close>

lemma num_or_not_NaN: "d \<noteq> NaN \<Longrightarrow> num_or n d \<noteq> NaN"
  by (cases n) (auto simp: num_or_def)

lemma Math_min_upper: "a \<noteq> NaN \<Longrightarrow> hi \<noteq> NaN \<Longrightarrow> \<not> num_less hi (Math_min a hi)"
  by (cases a; cases hi) (auto simp: Math_min_def)

lemma limit_arg_upper:
  "d \<noteq> NaN \<Longrightarrow> hi \<noteq> NaN \<Longrightarrow>
     limit_arg h args d hi \<noteq> NaN \<and> \<not> num_less hi (limit_arg h args d hi)"
proof -
  assume d: "d \<noteq> NaN" and hi: "hi \<noteq> NaN"
  define a where "a = num_or (Number_of h (get args ''limit'')) d"
  have a: "a \<noteq> NaN" unfolding a_def using d by (rule num_or_not_NaN)
  have "Math_min a hi \<noteq> NaN" using a hi by (simp add: Math_min_def)
  moreover have "\<not> num_less hi (Math_min a hi)" using a hi by (rule Math_min_upper)
  ultimately show ?thesis by (simp add: limit_arg_def a_def)
qed

lemma limit_arg_default:
  "\<not> num_truthy (Number_of h (get args ''limit'')) \<Longrightarrow>
     limit_arg h args (Fin d) (Fin hi) = Fin (min d hi)"
  by (auto simp: limit_arg_def num_or_def Math_min_def)

lemma limit_arg_given:
  "num_truthy (Number_of h (get args ''limit'')) \<Longrightarrow>
     limit_arg h args d hi = Math_min (Number_of h (get args ''limit'')) hi"
  by (simp add: limit_arg_def num_or_def)

lemma limit_arg_absent:
  "get args ''limit'' = JUndefined \<Longrightarrow> limit_arg h args (Fin d) (Fin hi) = Fin (min d hi)"
  by (rule limit_arg_default) (simp add: Number_of_def)

lemma limit_arg_number:
  "get args ''limit'' = JNum (Fin x) \<Longrightarrow> x \<noteq> 0 \<Longrightarrow>
     limit_arg h args (Fin d) (Fin hi) = Fin (min x hi)"
  by (auto simp: limit_arg_def Number_of_def num_or_def Math_min_def)

lemma dispatch_list:
  "tool_result h (JStr ''hubspot_list_contacts'') args = hubspot_list_contacts h args"
  "tool_result h (JStr ''hubspot_list_companies'') args = hubspot_list_companies h args"
  "tool_result h (JStr ''hubspot_list_owners'') args = hubspot_list_owners h args"
  by (simp_all add: tool_result_def)

lemma list_requests:
  assumes "configured h"
  shows "issued tr (tool_result h (JStr ''hubspot_list_contacts'') args tr) =
           [request_of h
              (PathQuery ''/crm/v3/objects/contacts''
                 ((''limit'', numberToString h (limit_arg h args DEFAULT_MAX_RESULTS (Fin 100)))
                  # (if truthy (get args ''after'')
                     then [(''after'', String_of h (get args ''after''))] else [])
                  @ properties_params h args))
              ''GET'' None]"
    and "issued tr (tool_result h (JStr ''hubspot_list_companies'') args tr) =
           [request_of h
              (PathQuery ''/crm/v3/objects/companies''
                 ((''limit'', numberToString h (limit_arg h args DEFAULT_MAX_RESULTS (Fin 100)))
                  # (if truthy (get args ''after'')
                     then [(''after'', String_of h (get args ''after''))] else [])
                  @ properties_params h args))
              ''GET'' None]"
    and "issued tr (tool_result h (JStr ''hubspot_list_owners'') args tr) =
           [request_of h
              (PathQuery ''/crm/v3/owners''
                 ((''limit'', numberToString h (limit_arg h args (Fin 100) (Fin 500)))
                  # (if truthy (get args ''after'')
                     then [(''after'', String_of h (get args ''after''))] else [])
                  @ (if truthy (get args ''archived'') then [(''archived'', ''true'')] else [])))
              ''GET'' None]"
  using assms
  by (simp_all add: issued_def dispatch_list hubspot_list_contacts_def
        hubspot_list_companies_def hubspot_list_owners_def hubspot_configured snd_andThen_lift
        list_params_def String_of_def)

lemma search_limits:
  "field (search_body h args) ''limit'' = JNum (limit_arg h args DEFAULT_MAX_RESULTS (Fin 100))"
  "field (search_tasks_body h args) ''limit''
     = JNum (limit_arg h args DEFAULT_MAX_RESULTS (Fin 100))"
  "field (search_deals_body h args) ''limit''
     = JNum (limit_arg h args DEFAULT_MAX_RESULTS (Fin 100))"
  by (simp_all add: search_body_def search_tasks_body_def search_deals_body_def field_Cons)

text \<open>
  Claim C4, amended. Let \<open>n\<close> be \<^verbatim>\<open>Number(args.limit)\<close>. The limit of a list or search tool
  is never above 100 (500 for the owners list). When \<open>n\<close> is NaN or 0, as it is for an absent
  limit, the limit is the default 20 (100 for owners); otherwise it is the smaller of \<open>n\<close>
  and the upper bound, so a number below 1 other than 0 is kept as it is. This limit is the
  first query parameter of the request of each of the three list tools and the \<^verbatim>\<open>limit\<close>
  field of the body of the request of each of the four search tools.
\<close>

theorem limit_contract:
  "limit_arg h args DEFAULT_MAX_RESULTS (Fin 100) \<noteq> NaN
   \<and> \<not> num_less (Fin 100) (limit_arg h args DEFAULT_MAX_RESULTS (Fin 100))
   \<and> limit_arg h args (Fin 100) (Fin 500) \<noteq> NaN
   \<and> \<not> num_less (Fin 500) (limit_arg h args (Fin 100) (Fin 500))
   \<and> (\<not> num_truthy (Number_of h (get argsd ''limit''))
        \<longrightarrow> limit_arg h argsd DEFAULT_MAX_RESULTS (Fin 100) = Fin 20
          \<and> limit_arg h argsd (Fin 100) (Fin 500) = Fin 100)
   \<and> (num_truthy (Number_of h (get argsn ''limit''))
        \<longrightarrow> limit_arg h argsn DEFAULT_MAX_RESULTS (Fin 100)
              = Math_min (Number_of h (get argsn ''limit'')) (Fin 100)
          \<and> limit_arg h argsn (Fin 100) (Fin 500)
              = Math_min (Number_of h (get argsn ''limit'')) (Fin 500))
   \<and> (get argsu ''limit'' = JUndefined
        \<longrightarrow> limit_arg h argsu DEFAULT_MAX_RESULTS (Fin 100) = Fin 20
          \<and> limit_arg h argsu (Fin 100) (Fin 500) = Fin 100)
   \<and> (get argsx ''limit'' = JNum (Fin x) \<and> x \<noteq> 0
        \<longrightarrow> limit_arg h argsx DEFAULT_MAX_RESULTS (Fin 100) = Fin (min x 100)
          \<and> limit_arg h argsx (Fin 100) (Fin 500) = Fin (min x 500))
   \<and> (configured h
        \<longrightarrow> issued tr (tool_result h (JStr ''hubspot_list_contacts'') args tr) =
              [request_of h
                 (PathQuery ''/crm/v3/objects/contacts''
                    ((''limit'',
                      numberToString h (limit_arg h args DEFAULT_MAX_RESULTS (Fin 100)))
                     # (if truthy (get args ''after'')
                        then [(''after'', String_of h (get args ''after''))] else [])
                     @ properties_params h args))
                 ''GET'' None]
          \<and> issued tr (tool_result h (JStr ''hubspot_list_companies'') args tr) =
              [request_of h
                 (PathQuery ''/crm/v3/objects/companies''
                    ((''limit'',
                      numberToString h (limit_arg h args DEFAULT_MAX_RESULTS (Fin 100)))
                     # (if truthy (get args ''after'')
                        then [(''after'', String_of h (get args ''after''))] else [])
                     @ properties_params h args))
                 ''GET'' None]
          \<and> issued tr (tool_result h (JStr ''hubspot_list_owners'') args tr) =
              [request_of h
                 (PathQuery ''/crm/v3/owners''
                    ((''limit'', numberToString h (limit_arg h args (Fin 100) (Fin 500)))
                     # (if truthy (get args ''after'')
                        then [(''after'', String_of h (get args ''after''))] else [])
                     @ (if truthy (get args ''archived'') then [(''archived'', ''true'')] else [])))
                 ''GET'' None]
          \<and> issued tr (tool_result h (JStr ''hubspot_search_contacts'') args tr) =
              [request_of h (Path ''/crm/v3/objects/contacts/search'') ''POST''
                 (Some (JObj (search_body h args)))]
          \<and> issued tr (tool_result h (JStr ''hubspot_search_companies'') args tr) =
              [request_of h (Path ''/crm/v3/objects/companies/search'') ''POST''
                 (Some (JObj (search_body h args)))]
          \<and> issued tr (tool_result h (JStr ''hubspot_search_tasks'') args tr) =
              [request_of h (Path ''/crm/v3/objects/tasks/search'') ''POST''
                 (Some (JObj (search_tasks_body h args)))]
          \<and> issued tr (tool_result h (JStr ''hubspot_search_deals'') args tr) =
              [request_of h (Path ''/crm/v3/objects/deals/search'') ''POST''
                 (Some (JObj (search_deals_body h args)))])
   \<and> field (search_body h args) ''limit''
       = JNum (limit_arg h args DEFAULT_MAX_RESULTS (Fin 100))
   \<and> field (search_tasks_body h args) ''limit''
       = JNum (limit_arg h args DEFAULT_MAX_RESULTS (Fin 100))
   \<and> field (search_deals_body h args) ''limit''
       = JNum (limit_arg h args DEFAULT_MAX_RESULTS (Fin 100))"
proof -
  have up: "limit_arg h args DEFAULT_MAX_RESULTS (Fin 100) \<noteq> NaN
      \<and> \<not> num_less (Fin 100) (limit_arg h args DEFAULT_MAX_RESULTS (Fin 100))"
    by (rule limit_arg_upper) (simp_all add: DEFAULT_MAX_RESULTS_def)
  have up': "limit_arg h args (Fin 100) (Fin 500) \<noteq> NaN
      \<and> \<not> num_less (Fin 500) (limit_arg h args (Fin 100) (Fin 500))"
    by (rule limit_arg_upper) simp_all
  have df: "\<not> num_truthy (Number_of h (get argsd ''limit''))
        \<longrightarrow> limit_arg h argsd DEFAULT_MAX_RESULTS (Fin 100) = Fin 20
          \<and> limit_arg h argsd (Fin 100) (Fin 500) = Fin 100"
    by (simp add: limit_arg_default DEFAULT_MAX_RESULTS_def)
  have gv: "num_truthy (Number_of h (get argsn ''limit''))
        \<longrightarrow> limit_arg h argsn DEFAULT_MAX_RESULTS (Fin 100)
              = Math_min (Number_of h (get argsn ''limit'')) (Fin 100)
          \<and> limit_arg h argsn (Fin 100) (Fin 500)
              = Math_min (Number_of h (get argsn ''limit'')) (Fin 500)"
    by (simp add: limit_arg_given)
  have ab: "get argsu ''limit'' = JUndefined
        \<longrightarrow> limit_arg h argsu DEFAULT_MAX_RESULTS (Fin 100) = Fin 20
          \<and> limit_arg h argsu (Fin 100) (Fin 500) = Fin 100"
    by (simp add: limit_arg_absent DEFAULT_MAX_RESULTS_def)
  have nu: "get argsx ''limit'' = JNum (Fin x) \<and> x \<noteq> 0
        \<longrightarrow> limit_arg h argsx DEFAULT_MAX_RESULTS (Fin 100) = Fin (min x 100)
          \<and> limit_arg h argsx (Fin 100) (Fin 500) = Fin (min x 500)"
    by (simp add: limit_arg_number DEFAULT_MAX_RESULTS_def)
  note sent = list_requests [of h tr args] search_requests [of h tr args]
  note body = search_limits [of h args]
  from up up' df gv ab nu sent body show ?thesis by blast
qed

text \<open>
  The limits 0, \<^verbatim>\<open>true\<close> and 250, an absent limit, and the owners list without arguments.
\<close>

theorem limit_contract_witness:
  "\<not> num_truthy (Number_of demo_host (get (JObj [(''limit'', JNum (Fin 0))]) ''limit''))
   \<and> limit_arg demo_host (JObj [(''limit'', JNum (Fin 0))]) DEFAULT_MAX_RESULTS (Fin 100) = Fin 20
   \<and> num_truthy (Number_of demo_host (get (JObj [(''limit'', JBool True)]) ''limit''))
   \<and> limit_arg demo_host (JObj [(''limit'', JBool True)]) DEFAULT_MAX_RESULTS (Fin 100) = Fin 1
   \<and> get (JObj [(''limit'', JNum (Fin 250))]) ''limit'' = JNum (Fin 250)
   \<and> limit_arg demo_host (JObj [(''limit'', JNum (Fin 250))]) DEFAULT_MAX_RESULTS (Fin 100) = Fin 100
   \<and> limit_arg demo_host (JObj [(''limit'', JNum (Fin 250))]) (Fin 100) (Fin 500) = Fin 250
   \<and> get (JObj []) ''limit'' = JUndefined
   \<and> limit_arg demo_host (JObj []) DEFAULT_MAX_RESULTS (Fin 100) = Fin 20
   \<and> limit_arg demo_host (JObj []) (Fin 100) (Fin 500) = Fin 100
   \<and> configured demo_host
   \<and> issued [] (tool_result demo_host (JStr ''hubspot_list_owners'') (JObj []) []) =
       [\<lparr>path = PathQuery ''/crm/v3/owners'' [(''limit'', ''100'')], verb = ''GET'',
         bearer = ''secret'', body = None\<rparr>]"
  using limit_contract
          [where h = demo_host and args = "JObj []" and tr = "[]"
             and argsd = "JObj [(''limit'', JNum (Fin 0))]"
             and argsn = "JObj [(''limit'', JBool True)]"
             and argsu = "JObj []" and argsx = "JObj [(''limit'', JNum (Fin 250))]"
             and x = 250]
  by (simp add: get_def field_def configured_def demo_host_def request_of_def Number_of_def
        Math_min_def demo_numberToString_def properties_params_def)
    (simp add: index_text.simps)

text \<open>
  Claim C4 as written fails: a limit of -5 is sent to the contact search unchanged, below
  the documented minimum of 1.
\<close>

theorem limit_counterexample:
  "snd (tool_result demo_host (JStr ''hubspot_search_contacts'')
          (JObj [(''limit'', JNum (Fin (- 5)))]) [])
     = [\<lparr>path = Path ''/crm/v3/objects/contacts/search'', verb = ''POST'', bearer = ''secret'',
         body = Some (JObj [(''limit'', JNum (Fin (- 5)))])\<rparr>]
   \<and> num_less (Fin (- 5)) (Fin 1)"
  by (simp add: dispatch_search hubspot_search_contacts_def snd_andThen_lift hubspot_def
        demo_host_def search_body_def limit_arg_def Number_of_def num_or_def Math_min_def
        get_def field_def Let_def DEFAULT_MAX_RESULTS_def)


section \<open>Properties of the composite creates\<close>

lemma hubspot_answer:
  "configured h \<Longrightarrow>
     hubspot h p m b tr = (answer h tr (request_of h p m b), tr @ [request_of h p m b])"
  by (simp add: hubspot_configured answer_def request_of_def)

lemma andThen_hubspot:
  "configured h \<Longrightarrow>
     andThen (hubspot h p m b) f tr =
       (case answer h tr (request_of h p m b) of
          Inl e \<Rightarrow> (Inl e, tr @ [request_of h p m b])
        | Inr x \<Rightarrow> f x (tr @ [request_of h p m b]))"
  by (simp add: andThen_def hubspot_answer split: sum.splits)

lemma andThen_unconfigured:
  "\<not> configured h \<Longrightarrow>
     andThen (hubspot h p m b) f tr =
       (Inl (Error ''HUBSPOT_ACCESS_TOKEN not configured''), tr)"
  by (simp add: andThen_def hubspot_unconfigured)

lemma andThen_lift: "andThen (lift r) f tr = (case r of Inl e \<Rightarrow> (Inl e, tr) | Inr x \<Rightarrow> f x tr)"
  by (simp add: andThen_def lift_def split: sum.splits)

lemma andThen_ret: "andThen (ret x) f tr = f x tr"
  by (simp add: andThen_def ret_def)

lemma andThen_throws:
  "andThen (lift (Inl e)) f = throw e"
  "andThen (throw e) f = throw e"
  "andThen (lift (Inr x)) f = f x"
  "andThen (ret x) f = f x"
  by (rule ext, simp add: andThen_def lift_def throw_def ret_def)+

lemma request_of_sel:
  "verb (request_of h p m b) = m" "path (request_of h p m b) = p"
  by (simp_all add: request_of_def)

lemma sequential_unconfigured:
  "sequential h tr (Inl e, tr) plan"
  by (simp add: sequential_def issued_def)

lemma linked_sequential:
  "sequential h tr
     (andThen (hubspot h p1 ''POST'' b1)
        (\<lambda>d. andThen (lift (read d ''id''))
           (\<lambda>i. andThen (hubspot h (p2 i) ''PUT'' None) (\<lambda>_. ret (res d i)))) tr)
     (\<lambda>ident. [(''POST'', p1), (''PUT'', p2 ident)])"
proof (cases "configured h")
  case False
  then show ?thesis
    by (simp add: andThen_unconfigured sequential_unconfigured)
next
  case True
  show ?thesis
  proof (cases "answer h tr (request_of h p1 ''POST'' b1)")
    case (Inl e)
    with True show ?thesis
      by (simp add: andThen_hubspot sequential_def issued_def request_of_sel created_id_def)
  next
    case (Inr d)
    show ?thesis
    proof (cases "d = JUndefined \<or> d = JNull")
      case True
      with \<open>configured h\<close> Inr show ?thesis
        by (auto simp: andThen_hubspot andThen_lift read_def sequential_def issued_def
              request_of_sel created_id_def)
    next
      case False
      with \<open>configured h\<close> Inr show ?thesis
        by (cases "answer h (tr @ [request_of h p1 ''POST'' b1])
                     (request_of h (p2 (get d ''id'')) ''PUT'' None)")
          (simp_all add: andThen_hubspot andThen_lift read_def ret_def sequential_def
              issued_def request_of_sel created_id_def)
    qed
  qed
qed

lemma hubspot_log_email_sequential:
  "sequential h tr (hubspot_log_email h args tr)
     (linked_plan h args ''emails'' ''email_to_contact'')"
proof -
  have plan: "linked_plan h args ''emails'' ''email_to_contact'' =
      (\<lambda>ident. [(''POST'', Path ''/crm/v3/objects/emails''),
                 (''PUT'', association_path h ''emails'' ident ''contacts''
                    (String_of h (get args ''contactId'')) ''email_to_contact'')])"
    by (rule ext) (simp add: linked_plan_def)
  show ?thesis
    unfolding plan hubspot_log_email_def Let_def by (rule linked_sequential)
qed

lemma hubspot_create_note_sequential:
  "sequential h tr (hubspot_create_note h args tr)
     (linked_plan h args ''notes'' ''note_to_contact'')"
proof -
  have plan: "linked_plan h args ''notes'' ''note_to_contact'' =
      (\<lambda>ident. [(''POST'', Path ''/crm/v3/objects/notes''),
                 (''PUT'', association_path h ''notes'' ident ''contacts''
                    (String_of h (get args ''contactId'')) ''note_to_contact'')])"
    by (rule ext) (simp add: linked_plan_def)
  show ?thesis
    unfolding plan hubspot_create_note_def Let_def by (rule linked_sequential)
qed

lemma hubspot_create_task_sequential:
  "sequential h tr (hubspot_create_task h args tr)
     (linked_plan h args ''tasks'' ''task_to_contact'')"
proof -
  have plan: "linked_plan h args ''tasks'' ''task_to_contact'' =
      (\<lambda>ident. [(''POST'', Path ''/crm/v3/objects/tasks''),
                 (''PUT'', association_path h ''tasks'' ident ''contacts''
                    (String_of h (get args ''contactId'')) ''task_to_contact'')])"
    by (rule ext) (simp add: linked_plan_def)
  show ?thesis
    unfolding plan hubspot_create_task_def Let_def by (rule linked_sequential)
qed

lemma deal_sequential:
  "sequential h tr
     (andThen (hubspot h p1 ''POST'' b1)
        (\<lambda>d. andThen
                (if cc then andThen (lift (read d ''id'')) (\<lambda>i. hubspot h (pc i) ''PUT'' None)
                 else ret JUndefined)
           (\<lambda>_. andThen
                   (if cco
                    then andThen (lift (read d ''id'')) (\<lambda>i. hubspot h (pco i) ''PUT'' None)
                    else ret JUndefined)
              (\<lambda>_. andThen (lift (read d ''id'')) (\<lambda>i. ret (res d i))))) tr)
     (\<lambda>ident. [(''POST'', p1)] @ (if cc then [(''PUT'', pc ident)] else [])
               @ (if cco then [(''PUT'', pco ident)] else []))"
proof (cases "configured h")
  case False
  then show ?thesis
    by (simp add: andThen_unconfigured sequential_unconfigured)
next
  case True
  show ?thesis
  proof (cases "answer h tr (request_of h p1 ''POST'' b1)")
    case (Inl e)
    with True show ?thesis
      by (simp add: andThen_hubspot sequential_def issued_def request_of_sel created_id_def)
  next
    case (Inr d)
    show ?thesis
    proof (cases "d = JUndefined \<or> d = JNull")
      case True
      with \<open>configured h\<close> Inr show ?thesis
        by (auto simp: andThen_hubspot andThen_throws throw_def read_def sequential_def
              issued_def request_of_sel created_id_def)
    next
      case False
      with \<open>configured h\<close> Inr show ?thesis
        by (auto simp: andThen_hubspot andThen_throws throw_def read_def ret_def
              sequential_def issued_def request_of_sel created_id_def
              split: sum.splits)
    qed
  qed
qed

lemma deal_result:
  assumes "fst (andThen (hubspot h p1 ''POST'' b1)
                  (\<lambda>d. andThen (m1 d)
                     (\<lambda>_. andThen (m2 d)
                        (\<lambda>_. andThen (lift (read d ''id'')) (\<lambda>i. ret (res d i))))) tr)
           = Inr r"
  shows "\<exists>d i. r = res d i"
  using assms
  by (auto simp: andThen_def lift_def ret_def split: prod.splits sum.splits)

lemma hubspot_create_deal_sequential:
  "sequential h tr (hubspot_create_deal h args tr) (deal_plan h args)"
proof -
  have plan: "deal_plan h args =
      (\<lambda>ident. [(''POST'', Path ''/crm/v3/objects/deals'')]
         @ (if truthy (get args ''contactId'')
            then [(''PUT'', association_path h ''deals'' ident ''contacts''
                     (String_of h (get args ''contactId'')) ''deal_to_contact'')]
            else [])
         @ (if truthy (get args ''companyId'')
            then [(''PUT'', association_path h ''deals'' ident ''companies''
                     (String_of h (get args ''companyId'')) ''deal_to_company'')]
            else []))"
    by (rule ext) (simp add: deal_plan_def)
  show ?thesis
    unfolding plan hubspot_create_deal_def associate_deal_def Let_def
    by (rule deal_sequential)
qed

lemma hubspot_create_deal_result:
  assumes "fst (hubspot_create_deal h args tr) = Inr r"
  shows "get r ''success'' = JBool True
         \<and> get r ''associations'' =
             JObj [(''contactId'', js_or (get args ''contactId'') JNull),
                   (''companyId'', js_or (get args ''companyId'') JNull)]"
proof -
  have "\<exists>d i. r = (\<lambda>d i. JObj [(''success'', JBool True), (''dealId'', i),
                              (''properties'', get d ''properties''),
                              (''associations'',
                               JObj [(''contactId'', js_or (get args ''contactId'') JNull),
                                     (''companyId'', js_or (get args ''companyId'') JNull)])]) d i"
    by (rule deal_result) (use assms in \<open>simp add: hubspot_create_deal_def Let_def\<close>)
  then show ?thesis by (auto simp: get_def field_Cons)
qed

lemma linked_carried_out:
  "carried_out h tr
     (andThen (hubspot h p1 ''POST'' b1)
        (\<lambda>d. andThen (lift (read d ''id''))
           (\<lambda>i. andThen (hubspot h (p2 i) ''PUT'' None) (\<lambda>_. ret (res d i)))) tr)
     (\<lambda>ident. [(''POST'', p1), (''PUT'', p2 ident)])"
proof (cases "configured h")
  case False
  then show ?thesis
    by (simp add: andThen_unconfigured carried_out_def)
next
  case True
  show ?thesis
  proof (cases "answer h tr (request_of h p1 ''POST'' b1)")
    case (Inl e)
    with True show ?thesis
      by (simp add: andThen_hubspot carried_out_def issued_def)
  next
    case (Inr d)
    show ?thesis
    proof (cases "d = JUndefined \<or> d = JNull")
      case True
      with \<open>configured h\<close> Inr show ?thesis
        by (auto simp: andThen_hubspot andThen_lift read_def carried_out_def issued_def
              described_def)
    next
      case False
      with \<open>configured h\<close> Inr show ?thesis
        by (cases "answer h (tr @ [request_of h p1 ''POST'' b1])
                     (request_of h (p2 (get d ''id'')) ''PUT'' None)")
          (simp_all add: andThen_hubspot andThen_lift read_def ret_def carried_out_def
              issued_def described_def created_id_def request_of_sel)
    qed
  qed
qed

lemma deal_carried_out:
  "carried_out h tr
     (andThen (hubspot h p1 ''POST'' b1)
        (\<lambda>d. andThen
                (if cc then andThen (lift (read d ''id'')) (\<lambda>i. hubspot h (pc i) ''PUT'' None)
                 else ret JUndefined)
           (\<lambda>_. andThen
                   (if cco
                    then andThen (lift (read d ''id'')) (\<lambda>i. hubspot h (pco i) ''PUT'' None)
                    else ret JUndefined)
              (\<lambda>_. andThen (lift (read d ''id'')) (\<lambda>i. ret (res d i))))) tr)
     (\<lambda>ident. [(''POST'', p1)] @ (if cc then [(''PUT'', pc ident)] else [])
               @ (if cco then [(''PUT'', pco ident)] else []))"
proof (cases "configured h")
  case False
  then show ?thesis
    by (simp add: andThen_unconfigured carried_out_def)
next
  case True
  show ?thesis
  proof (cases "answer h tr (request_of h p1 ''POST'' b1)")
    case (Inl e)
    with True show ?thesis
      by (simp add: andThen_hubspot carried_out_def issued_def)
  next
    case (Inr d)
    show ?thesis
    proof (cases "d = JUndefined \<or> d = JNull")
      case True
      with \<open>configured h\<close> Inr show ?thesis
        by (auto simp: andThen_hubspot andThen_throws throw_def read_def carried_out_def
              issued_def described_def)
    next
      case False
      with \<open>configured h\<close> Inr show ?thesis
        by (auto simp: andThen_hubspot andThen_throws throw_def read_def ret_def
              carried_out_def issued_def described_def created_id_def request_of_sel
              split: sum.splits)
    qed
  qed
qed

lemma linked_plan_fun:
  "linked_plan h args objectType label =
     (\<lambda>ident. [(''POST'', Path (''/crm/v3/objects/'' @ objectType)),
                (''PUT'', association_path h objectType ident ''contacts''
                   (String_of h (get args ''contactId'')) label)])"
  by (rule ext) (simp add: linked_plan_def)

lemma deal_plan_fun:
  "deal_plan h args =
     (\<lambda>ident. [(''POST'', Path ''/crm/v3/objects/deals'')]
        @ (if truthy (get args ''contactId'')
           then [(''PUT'', association_path h ''deals'' ident ''contacts''
                    (String_of h (get args ''contactId'')) ''deal_to_contact'')]
           else [])
        @ (if truthy (get args ''companyId'')
           then [(''PUT'', association_path h ''deals'' ident ''companies''
                    (String_of h (get args ''companyId'')) ''deal_to_company'')]
           else []))"
  by (rule ext) (simp add: deal_plan_def)

lemma hubspot_log_email_carried_out:
  "carried_out h tr (hubspot_log_email h args tr)
     (linked_plan h args ''emails'' ''email_to_contact'')"
  unfolding linked_plan_fun hubspot_log_email_def Let_def
  using linked_carried_out [where ?p1.0 = "Path (''/crm/v3/objects/'' @ ''emails'')"]
  by simp

lemma hubspot_create_note_carried_out:
  "carried_out h tr (hubspot_create_note h args tr)
     (linked_plan h args ''notes'' ''note_to_contact'')"
  unfolding linked_plan_fun hubspot_create_note_def Let_def
  using linked_carried_out [where ?p1.0 = "Path (''/crm/v3/objects/'' @ ''notes'')"]
  by simp

lemma hubspot_create_task_carried_out:
  "carried_out h tr (hubspot_create_task h args tr)
     (linked_plan h args ''tasks'' ''task_to_contact'')"
  unfolding linked_plan_fun hubspot_create_task_def Let_def
  using linked_carried_out [where ?p1.0 = "Path (''/crm/v3/objects/'' @ ''tasks'')"]
  by simp

lemma hubspot_create_deal_carried_out:
  "carried_out h tr (hubspot_create_deal h args tr) (deal_plan h args)"
  unfolding deal_plan_fun hubspot_create_deal_def associate_deal_def Let_def
  by (rule deal_carried_out)

lemma dispatch_create:
  "tool_result h (JStr ''hubspot_create_deal'') args = hubspot_create_deal h args"
  "tool_result h (JStr ''hubspot_log_email'') args = hubspot_log_email h args"
  "tool_result h (JStr ''hubspot_create_note'') args = hubspot_create_note h args"
  "tool_result h (JStr ''hubspot_create_task'') args = hubspot_create_task h args"
  by (simp_all add: tool_result_def)

text \<open>
  Claim C8. Each composite create is sequential for its plan and carries it out. The plan is
  the primary create first, then the association with the contact, then (for a deal) the
  association with the company. Sequential: a request is sent only when every request before
  it was answered with success, so nothing follows a failed request, and no request other
  than the planned \<^verbatim>\<open>POST\<close> and \<^verbatim>\<open>PUT\<close> is ever sent, in particular nothing that would remove the
  created object; the tool returns a result only when the whole plan was sent and every
  request succeeded. Carried out: with a credential the create is always sent; when a
  request fails the tool fails with the failure of that request; when every request
  succeeds and the create is answered with an object, the requests sent are the whole plan
  and the tool returns a result. The result of a deal creation has \<^verbatim>\<open>success: true\<close> and the
  associations given by the caller.
\<close>

theorem composite_create_contract:
  "sequential h tr (tool_result h (JStr ''hubspot_create_deal'') args tr) (deal_plan h args)
   \<and> carried_out h tr (tool_result h (JStr ''hubspot_create_deal'') args tr) (deal_plan h args)
   \<and> sequential h tr (tool_result h (JStr ''hubspot_log_email'') args tr)
        (linked_plan h args ''emails'' ''email_to_contact'')
   \<and> carried_out h tr (tool_result h (JStr ''hubspot_log_email'') args tr)
        (linked_plan h args ''emails'' ''email_to_contact'')
   \<and> sequential h tr (tool_result h (JStr ''hubspot_create_note'') args tr)
        (linked_plan h args ''notes'' ''note_to_contact'')
   \<and> carried_out h tr (tool_result h (JStr ''hubspot_create_note'') args tr)
        (linked_plan h args ''notes'' ''note_to_contact'')
   \<and> sequential h tr (tool_result h (JStr ''hubspot_create_task'') args tr)
        (linked_plan h args ''tasks'' ''task_to_contact'')
   \<and> carried_out h tr (tool_result h (JStr ''hubspot_create_task'') args tr)
        (linked_plan h args ''tasks'' ''task_to_contact'')
   \<and> (fst (tool_result h (JStr ''hubspot_create_deal'') args tr) = Inr r
        \<longrightarrow> get r ''success'' = JBool True
          \<and> get r ''associations'' =
              JObj [(''contactId'', js_or (get args ''contactId'') JNull),
                    (''companyId'', js_or (get args ''companyId'') JNull)])"
  unfolding dispatch_create
  by (intro conjI impI hubspot_create_deal_sequential hubspot_log_email_sequential
        hubspot_create_note_sequential hubspot_create_task_sequential
        hubspot_create_deal_carried_out hubspot_log_email_carried_out
        hubspot_create_note_carried_out hubspot_create_task_carried_out)
    (simp_all add: hubspot_create_deal_result)

text \<open>
  The deal \<^verbatim>\<open>Q1 Renewal\<close> with contact 10 and company 20: one create, then the two
  associations, contact first. The same deal with the contact 404, whose association the
  remote system refuses: the tool fails with that refusal after the create and the one
  association, and sends nothing more. An email logged for the contact 10.
\<close>

lemma demo_configured: "configured demo_host"
  by (simp add: configured_def demo_host_def)

lemma demo_create_deal:
  "tool_result demo_host (JStr ''hubspot_create_deal'')
          (JObj [(''dealname'', JStr ''Q1 Renewal''), (''contactId'', JStr ''10''),
                 (''companyId'', JStr ''20'')]) []
     = (Inr (JObj [(''success'', JBool True), (''dealId'', JStr ''501''),
                   (''properties'', JObj [(''dealname'', JStr ''Q1 Renewal'')]),
                   (''associations'',
                    JObj [(''contactId'', JStr ''10''), (''companyId'', JStr ''20'')])]),
        [\<lparr>path = Path ''/crm/v3/objects/deals'', verb = ''POST'', bearer = ''secret'',
          body = Some (JObj [(''properties'', JObj [(''dealname'', JStr ''Q1 Renewal'')])])\<rparr>,
         \<lparr>path = Path ''/crm/v3/objects/deals/501/associations/contacts/10/deal_to_contact'',
          verb = ''PUT'', bearer = ''secret'', body = None\<rparr>,
         \<lparr>path = Path ''/crm/v3/objects/deals/501/associations/companies/20/deal_to_company'',
          verb = ''PUT'', bearer = ''secret'', body = None\<rparr>])"
  by (simp add: dispatch_create hubspot_create_deal_def associate_deal_def association_path_def
        optional_property_def andThen_def lift_def ret_def read_def hubspot_def settle_def
        demo_host_def demo_remote_def String_of_def get_def field_def js_or_def Let_def)

lemma demo_create_deal_refused:
  "tool_result demo_host (JStr ''hubspot_create_deal'')
          (JObj [(''dealname'', JStr ''Q1 Renewal''), (''contactId'', JStr ''404''),
                 (''companyId'', JStr ''20'')]) []
     = (Inl (Error ''HubSpot API 404: contact not found''),
        [\<lparr>path = Path ''/crm/v3/objects/deals'', verb = ''POST'', bearer = ''secret'',
          body = Some (JObj [(''properties'', JObj [(''dealname'', JStr ''Q1 Renewal'')])])\<rparr>,
         \<lparr>path = Path ''/crm/v3/objects/deals/501/associations/contacts/404/deal_to_contact'',
          verb = ''PUT'', bearer = ''secret'', body = None\<rparr>])"
  by (simp add: dispatch_create hubspot_create_deal_def associate_deal_def association_path_def
        optional_property_def andThen_def lift_def ret_def read_def hubspot_def settle_def
        demo_host_def demo_remote_def demo_numberToString_def String_of_def get_def field_def
        js_or_def Let_def)
    (simp add: index_text.simps)

lemma demo_log_email:
  "tool_result demo_host (JStr ''hubspot_log_email'')
          (JObj [(''contactId'', JStr ''10''), (''subject'', JStr ''Hello''),
                 (''body'', JStr ''Hi'')]) []
     = (Inr (JObj [(''success'', JBool True), (''emailId'', JStr ''601''),
                   (''contactId'', JStr ''10''), (''properties'', JObj [])]),
        [\<lparr>path = Path ''/crm/v3/objects/emails'', verb = ''POST'', bearer = ''secret'',
          body = Some (JObj [(''properties'',
                   JObj [(''hs_email_subject'', JStr ''Hello''), (''hs_email_text'', JStr ''Hi''),
                         (''hs_email_direction'', JStr ''EMAIL''),
                         (''hs_timestamp'', JStr ''2025-01-01T00:00:00.000Z'')])])\<rparr>,
         \<lparr>path = Path ''/crm/v3/objects/emails/601/associations/contacts/10/email_to_contact'',
          verb = ''PUT'', bearer = ''secret'', body = None\<rparr>])"
  by (simp add: dispatch_create hubspot_log_email_def association_path_def
        andThen_def lift_def ret_def read_def hubspot_def settle_def
        demo_host_def demo_remote_def String_of_def get_def field_def js_or_def Let_def)

theorem composite_create_contract_witness:
  "configured demo_host
   \<and> tool_result demo_host (JStr ''hubspot_create_deal'')
          (JObj [(''dealname'', JStr ''Q1 Renewal''), (''contactId'', JStr ''10''),
                 (''companyId'', JStr ''20'')]) []
     = (Inr (JObj [(''success'', JBool True), (''dealId'', JStr ''501''),
                   (''properties'', JObj [(''dealname'', JStr ''Q1 Renewal'')]),
                   (''associations'',
                    JObj [(''contactId'', JStr ''10''), (''companyId'', JStr ''20'')])]),
        [\<lparr>path = Path ''/crm/v3/objects/deals'', verb = ''POST'', bearer = ''secret'',
          body = Some (JObj [(''properties'', JObj [(''dealname'', JStr ''Q1 Renewal'')])])\<rparr>,
         \<lparr>path = Path ''/crm/v3/objects/deals/501/associations/contacts/10/deal_to_contact'',
          verb = ''PUT'', bearer = ''secret'', body = None\<rparr>,
         \<lparr>path = Path ''/crm/v3/objects/deals/501/associations/companies/20/deal_to_company'',
          verb = ''PUT'', bearer = ''secret'', body = None\<rparr>])
   \<and> sequential demo_host []
        (tool_result demo_host (JStr ''hubspot_create_deal'')
          (JObj [(''dealname'', JStr ''Q1 Renewal''), (''contactId'', JStr ''10''),
                 (''companyId'', JStr ''20'')]) [])
        (deal_plan demo_host
          (JObj [(''dealname'', JStr ''Q1 Renewal''), (''contactId'', JStr ''10''),
                 (''companyId'', JStr ''20'')]))
   \<and> carried_out demo_host []
        (tool_result demo_host (JStr ''hubspot_create_deal'')
          (JObj [(''dealname'', JStr ''Q1 Renewal''), (''contactId'', JStr ''10''),
                 (''companyId'', JStr ''20'')]) [])
        (deal_plan demo_host
          (JObj [(''dealname'', JStr ''Q1 Renewal''), (''contactId'', JStr ''10''),
                 (''companyId'', JStr ''20'')]))
   \<and> get (JObj [(''success'', JBool True), (''dealId'', JStr ''501''),
                 (''properties'', JObj [(''dealname'', JStr ''Q1 Renewal'')]),
                 (''associations'',
                  JObj [(''contactId'', JStr ''10''), (''companyId'', JStr ''20'')])])
         ''associations''
       = JObj [(''contactId'', JStr ''10''), (''companyId'', JStr ''20'')]
   \<and> tool_result demo_host (JStr ''hubspot_create_deal'')
          (JObj [(''dealname'', JStr ''Q1 Renewal''), (''contactId'', JStr ''404''),
                 (''companyId'', JStr ''20'')]) []
     = (Inl (Error ''HubSpot API 404: contact not found''),
        [\<lparr>path = Path ''/crm/v3/objects/deals'', verb = ''POST'', bearer = ''secret'',
          body = Some (JObj [(''properties'', JObj [(''dealname'', JStr ''Q1 Renewal'')])])\<rparr>,
         \<lparr>path = Path ''/crm/v3/objects/deals/501/associations/contacts/404/deal_to_contact'',
          verb = ''PUT'', bearer = ''secret'', body = None\<rparr>])
   \<and> carried_out demo_host []
        (tool_result demo_host (JStr ''hubspot_create_deal'')
          (JObj [(''dealname'', JStr ''Q1 Renewal''), (''contactId'', JStr ''404''),
                 (''companyId'', JStr ''20'')]) [])
        (deal_plan demo_host
          (JObj [(''dealname'', JStr ''Q1 Renewal''), (''contactId'', JStr ''404''),
                 (''companyId'', JStr ''20'')]))
   \<and> tool_result demo_host (JStr ''hubspot_log_email'')
          (JObj [(''contactId'', JStr ''10''), (''subject'', JStr ''Hello''),
                 (''body'', JStr ''Hi'')]) []
     = (Inr (JObj [(''success'', JBool True), (''emailId'', JStr ''601''),
                   (''contactId'', JStr ''10''), (''properties'', JObj [])]),
        [\<lparr>path = Path ''/crm/v3/objects/emails'', verb = ''POST'', bearer = ''secret'',
          body = Some (JObj [(''properties'',
                   JObj [(''hs_email_subject'', JStr ''Hello''), (''hs_email_text'', JStr ''Hi''),
                         (''hs_email_direction'', JStr ''EMAIL''),
                         (''hs_timestamp'', JStr ''2025-01-01T00:00:00.000Z'')])])\<rparr>,
         \<lparr>path = Path ''/crm/v3/objects/emails/601/associations/contacts/10/email_to_contact'',
          verb = ''PUT'', bearer = ''secret'', body = None\<rparr>])
   \<and> carried_out demo_host []
        (tool_result demo_host (JStr ''hubspot_log_email'')
          (JObj [(''contactId'', JStr ''10''), (''subject'', JStr ''Hello''),
                 (''body'', JStr ''Hi'')]) [])
        (linked_plan demo_host
          (JObj [(''contactId'', JStr ''10''), (''subject'', JStr ''Hello''),
                 (''body'', JStr ''Hi'')]) ''emails'' ''email_to_contact'')"
  using composite_create_contract
          [where h = demo_host and tr = "[]"
             and args = "JObj [(''dealname'', JStr ''Q1 Renewal''), (''contactId'', JStr ''10''),
                     (''companyId'', JStr ''20'')]"
             and r = "JObj [(''success'', JBool True), (''dealId'', JStr ''501''),
                     (''properties'', JObj [(''dealname'', JStr ''Q1 Renewal'')]),
                     (''associations'',
                      JObj [(''contactId'', JStr ''10''), (''companyId'', JStr ''20'')])]"]
        composite_create_contract
          [where h = demo_host and tr = "[]"
             and args = "JObj [(''dealname'', JStr ''Q1 Renewal''), (''contactId'', JStr ''404''),
                     (''companyId'', JStr ''20'')]"]
        composite_create_contract
          [where h = demo_host and tr = "[]"
             and args = "JObj [(''contactId'', JStr ''10''), (''subject'', JStr ''Hello''),
                 (''body'', JStr ''Hi'')]"]
  by (simp add: demo_create_deal demo_create_deal_refused demo_log_email demo_configured
        get_def field_def js_or_def)


section \<open>Properties of the engagement fan-out\<close>

lemma start_lookups_types:
  "map fst (fst (start_lookups h cid ts tr)) = ts"
proof (induction ts arbitrary: tr)
  case Nil
  then show ?case by simp
next
  case (Cons a ts)
  obtain r tr' where 1: "hubspot h (lookup_path cid a) ''GET'' None tr = (r, tr')"
    by (cases "hubspot h (lookup_path cid a) ''GET'' None tr")
  obtain rs tr'' where 2: "start_lookups h cid ts tr' = (rs, tr'')"
    by (cases "start_lookups h cid ts tr'")
  from Cons.IH [of tr'] 1 2 show ?case by simp
qed

lemma start_lookups_results:
  "(t, r) \<in> set (fst (start_lookups h cid ts tr)) \<Longrightarrow>
     \<exists>tr1. r = fst (hubspot h (lookup_path cid t) ''GET'' None tr1)"
proof (induction ts arbitrary: tr)
  case Nil
  then show ?case by simp
next
  case (Cons a ts)
  obtain r0 tr' where 1: "hubspot h (lookup_path cid a) ''GET'' None tr = (r0, tr')"
    by (cases "hubspot h (lookup_path cid a) ''GET'' None tr")
  obtain rs tr'' where 2: "start_lookups h cid ts tr' = (rs, tr'')"
    by (cases "start_lookups h cid ts tr'")
  from Cons.prems 1 2 have "(t, r) = (a, r0) \<or> (t, r) \<in> set (fst (start_lookups h cid ts tr'))"
    by auto
  then show ?case
  proof
    assume "(t, r) = (a, r0)"
    with 1 have "r = fst (hubspot h (lookup_path cid t) ''GET'' None tr)" by simp
    then show ?thesis by blast
  next
    assume "(t, r) \<in> set (fst (start_lookups h cid ts tr'))"
    then show ?thesis by (rule Cons.IH)
  qed
qed

lemma field_update: "field (AList.update k v al) k' = (if k' = k then v else field al k')"
  by (simp add: field_def update_conv')

lemma resume_all_other:
  "t \<notin> fst ` set rs \<Longrightarrow> field (fst (resume_all h limit rs eng tr)) t = field eng t"
  by (induction rs arbitrary: eng tr) (auto split: prod.splits simp: field_update)

lemma resume_all_field:
  "t \<in> fst ` set rs \<Longrightarrow>
     \<exists>r tr2. (t, r) \<in> set rs
        \<and> field (fst (resume_all h limit rs eng tr)) t = JArr (fst (resume_task h limit t r tr2))"
proof (induction rs arbitrary: eng tr)
  case Nil
  then show ?case by simp
next
  case (Cons a rs)
  obtain t' r' where a: "a = (t', r')" by (cases a)
  obtain es tr' where step: "resume_task h limit t' r' tr = (es, tr')"
    by (cases "resume_task h limit t' r' tr")
  show ?case
  proof (cases "t \<in> fst ` set rs")
    case True
    from Cons.IH [OF True, of "AList.update t' (JArr es) eng" tr']
    show ?thesis using a step by auto
  next
    case False
    with Cons.prems a have t: "t = t'" by auto
    from False have "field (fst (resume_all h limit rs (AList.update t' (JArr es) eng) tr')) t
        = JArr es"
      by (simp add: resume_all_other field_update t)
    with a step t show ?thesis
      by (intro exI [of _ r'] exI [of _ tr]) simp
  qed
qed

lemma history_free_basic:
  "history_free (ret x)" "history_free (throw e)" "history_free (lift r)"
  by (simp_all add: history_free_def ret_def throw_def lift_def)

lemma history_free_hubspot: "stateless h \<Longrightarrow> history_free (hubspot h p m b)"
  unfolding history_free_def stateless_def hubspot_def
  by (auto simp: Let_def split: option.splits) metis

lemma history_free_andThen:
  assumes "history_free m" and "\<And>x. history_free (f x)"
  shows "history_free (andThen m f)"
proof -
  have "fst (andThen m f tr) = fst (andThen m f [])" for tr
  proof (cases "fst (m [])")
    case (Inl e)
    then have "fst (m tr) = Inl e" using assms(1) by (simp add: history_free_def)
    with Inl show ?thesis
      by (cases "m tr"; cases "m []") (simp add: andThen_def)
  next
    case (Inr x)
    then have "fst (m tr) = Inr x" using assms(1) by (simp add: history_free_def)
    moreover have "fst (f x tr1) = fst (f x tr2)" for tr1 tr2
      using assms(2) [of x] by (simp add: history_free_def) metis
    ultimately show ?thesis using Inr
      by (cases "m tr"; cases "m []") (simp add: andThen_def)
  qed
  then show ?thesis by (simp add: history_free_def)
qed

lemma history_free_batch_read:
  "stateless h \<Longrightarrow> history_free (batch_read h limit type assocs)"
  unfolding batch_read_def
  by (intro history_free_andThen history_free_basic history_free_hubspot)

lemma history_free_after_lookup:
  "stateless h \<Longrightarrow> history_free (after_lookup h limit type associations)"
  unfolding after_lookup_def
  by (intro history_free_andThen history_free_basic)
    (auto simp: history_free_basic history_free_batch_read split: jsval.splits)

lemma resume_task_stateless:
  assumes "stateless h"
  shows "fst (resume_task h limit type r tr) = fst (resume_task h limit type r [])"
proof (cases r)
  case (Inl e)
  then show ?thesis by (simp add: resume_task_def)
next
  case (Inr a)
  from history_free_after_lookup [OF assms, of limit type a]
  have "fst (after_lookup h limit type a tr) = fst (after_lookup h limit type a [])"
    by (simp add: history_free_def)
  with Inr show ?thesis
    by (cases "after_lookup h limit type a tr"; cases "after_lookup h limit type a []")
      (auto simp: resume_task_def split: sum.splits)
qed

lemma own_result_stateless:
  assumes "stateless h"
  shows "fst (resume_task h limit t (fst (hubspot h (lookup_path cid t) ''GET'' None tr1)) tr2)
           = own_result h limit cid t"
proof -
  from history_free_hubspot [OF assms, of "lookup_path cid t" "''GET''" None]
  have "fst (hubspot h (lookup_path cid t) ''GET'' None tr1)
          = fst (hubspot h (lookup_path cid t) ''GET'' None [])"
    by (simp add: history_free_def)
  then show ?thesis
    by (simp add: own_result_def resume_task_stateless [OF assms, of limit t _ tr2])
qed

lemma engagements_entries:
  assumes "t \<in> set ts"
  shows "\<exists>tr1 tr2.
           field (fst (resume_all h limit (fst (start_lookups h cid ts tr)) []
                        (snd (start_lookups h cid ts tr)))) t
             = JArr (fst (resume_task h limit t
                            (fst (hubspot h (lookup_path cid t) ''GET'' None tr1)) tr2))"
proof -
  from assms have "t \<in> fst ` set (fst (start_lookups h cid ts tr))"
    using start_lookups_types [of h cid ts tr] by (metis set_map)
  from resume_all_field [OF this]
  obtain r tr2 where r: "(t, r) \<in> set (fst (start_lookups h cid ts tr))"
    and f: "field (fst (resume_all h limit (fst (start_lookups h cid ts tr)) []
                        (snd (start_lookups h cid ts tr)))) t
             = JArr (fst (resume_task h limit t r tr2))"
    by blast
  from start_lookups_results [OF r] obtain tr1
    where "r = fst (hubspot h (lookup_path cid t) ''GET'' None tr1)" by blast
  with f show ?thesis by blast
qed

lemma hubspot_get_engagements_result:
  "hubspot_get_engagements h args tr =
     (Inr (JObj [(''contactId'', JStr (String_of h (get args ''contactId''))),
                 (''engagements'',
                  JObj (fst (resume_all h (limit_arg h args DEFAULT_MAX_RESULTS (Fin 100))
                          (fst (start_lookups h (String_of h (get args ''contactId''))
                                  (typesToFetch args) tr)) []
                          (snd (start_lookups h (String_of h (get args ''contactId''))
                                  (typesToFetch args) tr))))),
                 (''_meta'', JObj [(''typesRequested'', JArr (map JStr (typesToFetch args)))])]),
      snd (resume_all h (limit_arg h args DEFAULT_MAX_RESULTS (Fin 100))
             (fst (start_lookups h (String_of h (get args ''contactId''))
                     (typesToFetch args) tr)) []
             (snd (start_lookups h (String_of h (get args ''contactId''))
                     (typesToFetch args) tr))))"
  by (simp add: hubspot_get_engagements_def Let_def split: prod.splits)

lemma dispatch_engagements:
  "tool_result h (JStr ''hubspot_get_engagements'') args = hubspot_get_engagements h args"
  by (simp add: tool_result_def)

text \<open>
  Claim C7. \<^verbatim>\<open>hubspot_get_engagements\<close> always returns a result. For every requested type
  the entry of \<^verbatim>\<open>engagements\<close> is the list that the task of that type yields from its own
  association lookup and its own batch read; over a stateless remote system this is what the
  task yields when it runs alone, whatever happens to the other types. The task of a type
  yields the empty list when its lookup failed or when the rest of its \<^verbatim>\<open>try\<close> block failed,
  and the fetched list otherwise.
\<close>

theorem engagements_contract:
  "(\<exists>r. fst (tool_result h (JStr ''hubspot_get_engagements'') args tr) = Inr r
        \<and> get r ''contactId'' = JStr (String_of h (get args ''contactId''))
        \<and> (\<forall>t \<in> set (typesToFetch args). \<exists>tr1 tr2.
              get (get r ''engagements'') t =
                JArr (fst (resume_task h (limit_arg h args DEFAULT_MAX_RESULTS (Fin 100)) t
                        (fst (hubspot h (lookup_path (String_of h (get args ''contactId'')) t)
                                ''GET'' None tr1)) tr2)))
        \<and> (stateless h \<longrightarrow>
              (\<forall>t \<in> set (typesToFetch args).
                 get (get r ''engagements'') t =
                   JArr (own_result h (limit_arg h args DEFAULT_MAX_RESULTS (Fin 100))
                           (String_of h (get args ''contactId'')) t))))
   \<and> resume_task h n ty (Inl e) trx = ([], trx)
   \<and> (fst (after_lookup h n ty a trx) = Inl e'
        \<longrightarrow> fst (resume_task h n ty (Inr a) trx) = [])
   \<and> (fst (after_lookup h n ty a' trx) = Inr es
        \<longrightarrow> fst (resume_task h n ty (Inr a') trx) = es)"
proof (intro conjI)
  let ?cid = "String_of h (get args ''contactId'')"
  let ?lim = "limit_arg h args DEFAULT_MAX_RESULTS (Fin 100)"
  let ?eng = "fst (resume_all h ?lim (fst (start_lookups h ?cid (typesToFetch args) tr)) []
                     (snd (start_lookups h ?cid (typesToFetch args) tr)))"
  let ?r = "JObj [(''contactId'', JStr ?cid), (''engagements'', JObj ?eng),
                  (''_meta'', JObj [(''typesRequested'', JArr (map JStr (typesToFetch args)))])]"
  have res: "fst (tool_result h (JStr ''hubspot_get_engagements'') args tr) = Inr ?r"
    by (simp add: dispatch_engagements hubspot_get_engagements_result)
  have cid: "get ?r ''contactId'' = JStr ?cid"
    by (simp add: get_def field_Cons)
  have eng: "get (get ?r ''engagements'') t = field ?eng t" for t
    by (simp add: get_def field_Cons)
  have each: "\<forall>t \<in> set (typesToFetch args). \<exists>tr1 tr2.
        get (get ?r ''engagements'') t =
          JArr (fst (resume_task h ?lim t
                  (fst (hubspot h (lookup_path ?cid t) ''GET'' None tr1)) tr2))"
    unfolding eng by (intro ballI engagements_entries)
  have own: "stateless h \<longrightarrow>
        (\<forall>t \<in> set (typesToFetch args).
           get (get ?r ''engagements'') t = JArr (own_result h ?lim ?cid t))"
  proof (intro impI ballI)
    fix t assume s: "stateless h" and t: "t \<in> set (typesToFetch args)"
    from each t obtain tr1 tr2 where
      "get (get ?r ''engagements'') t =
          JArr (fst (resume_task h ?lim t
                  (fst (hubspot h (lookup_path ?cid t) ''GET'' None tr1)) tr2))"
      by blast
    then show "get (get ?r ''engagements'') t = JArr (own_result h ?lim ?cid t)"
      by (simp only: own_result_stateless [OF s])
  qed
  from res cid each own
  show "\<exists>r. fst (tool_result h (JStr ''hubspot_get_engagements'') args tr) = Inr r
        \<and> get r ''contactId'' = JStr ?cid
        \<and> (\<forall>t \<in> set (typesToFetch args). \<exists>tr1 tr2.
              get (get r ''engagements'') t =
                JArr (fst (resume_task h ?lim t
                        (fst (hubspot h (lookup_path ?cid t) ''GET'' None tr1)) tr2)))
        \<and> (stateless h \<longrightarrow>
              (\<forall>t \<in> set (typesToFetch args).
                 get (get r ''engagements'') t = JArr (own_result h ?lim ?cid t)))"
    by (intro exI [of _ ?r] conjI)
next
  show "resume_task h n ty (Inl e) trx = ([], trx)"
    by (simp add: resume_task_def)
next
  show "fst (after_lookup h n ty a trx) = Inl e'
        \<longrightarrow> fst (resume_task h n ty (Inr a) trx) = []"
    by (cases "after_lookup h n ty a trx") (simp add: resume_task_def)
next
  show "fst (after_lookup h n ty a' trx) = Inr es
        \<longrightarrow> fst (resume_task h n ty (Inr a') trx) = es"
    by (cases "after_lookup h n ty a' trx") (simp add: resume_task_def)
qed

text \<open>
  The lookup of the calls of contact 10 is rejected, the one of the emails succeeds:
  \<^verbatim>\<open>engagements.calls\<close> is empty and \<^verbatim>\<open>engagements.emails\<close> has the fetched email.
\<close>

lemma stateless_demo_host: "stateless demo_host"
  by (simp add: stateless_def demo_host_def demo_remote_def)

lemma demo_get_engagements:
  "tool_result demo_host (JStr ''hubspot_get_engagements'')
     (JObj [(''contactId'', JStr ''10''), (''types'', JArr [JStr ''calls'', JStr ''emails''])]) []
   = (Inr (JObj [(''contactId'', JStr ''10''),
                 (''engagements'',
                  JObj [(''calls'', JArr []),
                        (''emails'',
                         JArr [JObj [(''id'', JStr ''7''),
                                     (''properties'',
                                      JObj [(''hs_email_subject'', JStr ''Hello'')])]])]),
                 (''_meta'',
                  JObj [(''typesRequested'', JArr [JStr ''calls'', JStr ''emails''])])]),
      [\<lparr>path = Path ''/crm/v4/objects/contacts/10/associations/calls'', verb = ''GET'',
        bearer = ''secret'', body = None\<rparr>,
       \<lparr>path = Path ''/crm/v4/objects/contacts/10/associations/emails'', verb = ''GET'',
        bearer = ''secret'', body = None\<rparr>,
       \<lparr>path = Path ''/crm/v3/objects/emails/batch/read'', verb = ''POST'', bearer = ''secret'',
        body = Some (JObj [(''inputs'', JArr [JObj [(''id'', JStr ''7'')]]),
                           (''properties'',
                            JArr [JStr ''hs_email_subject'', JStr ''hs_email_text'',
                                  JStr ''hs_email_direction'', JStr ''hs_timestamp'',
                                  JStr ''hs_createdate''])])\<rparr>])"
  by (simp add: dispatch_engagements hubspot_get_engagements_def typesToFetch_def allTypes_def
        List.map_filter_simps lookup_path_def resume_task_def after_lookup_def batch_read_def
        engagement_properties_def results_of_def objects_in_def as_object_def read_def
        andThen_def lift_def ret_def hubspot_def settle_def demo_host_def demo_remote_def
        limit_arg_def Number_of_def num_or_def Math_min_def DEFAULT_MAX_RESULTS_def
        String_of_def get_def field_def Let_def trunc_def)

theorem engagements_contract_witness:
  "stateless demo_host
   \<and> isl (fst (hubspot demo_host (lookup_path ''10'' ''calls'') ''GET'' None []))
   \<and> fst (tool_result demo_host (JStr ''hubspot_get_engagements'')
            (JObj [(''contactId'', JStr ''10''),
                   (''types'', JArr [JStr ''calls'', JStr ''emails''])]) [])
       = Inr (JObj [(''contactId'', JStr ''10''),
                    (''engagements'',
                     JObj [(''calls'', JArr []),
                           (''emails'',
                            JArr [JObj [(''id'', JStr ''7''),
                                        (''properties'',
                                         JObj [(''hs_email_subject'', JStr ''Hello'')])]])]),
                    (''_meta'',
                     JObj [(''typesRequested'', JArr [JStr ''calls'', JStr ''emails''])])])
   \<and> own_result demo_host (Fin 20) ''10'' ''calls'' = []
   \<and> own_result demo_host (Fin 20) ''10'' ''emails''
       = [JObj [(''id'', JStr ''7''),
                (''properties'', JObj [(''hs_email_subject'', JStr ''Hello'')])]]
   \<and> fst (after_lookup demo_host (Fin 20) ''calls'' JNull []) = Inl TypeError
   \<and> fst (resume_task demo_host (Fin 20) ''calls'' (Inr JNull) []) = []
   \<and> fst (after_lookup demo_host (Fin 20) ''calls'' (JObj [(''results'', JArr [])]) [])
       = Inr []
   \<and> fst (resume_task demo_host (Fin 20) ''calls'' (Inr (JObj [(''results'', JArr [])])) [])
       = []"
proof -
  have lim: "limit_arg demo_host
               (JObj [(''contactId'', JStr ''10''),
                      (''types'', JArr [JStr ''calls'', JStr ''emails''])])
               DEFAULT_MAX_RESULTS (Fin 100) = Fin 20"
    by (simp add: limit_arg_def Number_of_def num_or_def Math_min_def DEFAULT_MAX_RESULTS_def
          get_def field_def)
  have types: "typesToFetch (JObj [(''contactId'', JStr ''10''),
                      (''types'', JArr [JStr ''calls'', JStr ''emails''])])
                 = [''calls'', ''emails'']"
    by (simp add: typesToFetch_def allTypes_def List.map_filter_simps get_def field_def)
  have cid: "String_of demo_host
               (get (JObj [(''contactId'', JStr ''10''),
                           (''types'', JArr [JStr ''calls'', JStr ''emails''])]) ''contactId'')
             = ''10''"
    by (simp add: String_of_def get_def field_def)
  have fails: "isl (fst (hubspot demo_host (lookup_path ''10'' ''calls'') ''GET'' None []))"
    by (simp add: hubspot_def settle_def demo_host_def demo_remote_def lookup_path_def Let_def)
  have a1: "fst (after_lookup demo_host (Fin 20) ''calls'' JNull []) = Inl TypeError"
    by (simp add: after_lookup_def andThen_def lift_def read_def)
  have a2: "fst (after_lookup demo_host (Fin 20) ''calls'' (JObj [(''results'', JArr [])]) [])
       = Inr []"
    by (simp add: after_lookup_def andThen_def lift_def read_def ret_def get_def field_def)
  from engagements_contract
         [where h = demo_host and tr = "[]"
            and args = "JObj [(''contactId'', JStr ''10''),
                              (''types'', JArr [JStr ''calls'', JStr ''emails''])]"
            and n = "Fin 20" and ty = "''calls''" and trx = "[]" and a = JNull
            and e' = TypeError and a' = "JObj [(''results'', JArr [])]" and es = "[]"]
       stateless_demo_host fails a1 a2
  show ?thesis
    by (simp add: lim types cid demo_get_engagements get_def field_def String_of_def)
qed

end
